theory Spec2Isabelle
  imports Main
begin

section \<open>DoGood: the handlers that write to the store\<close>

text \<open>
  The application is a set of React pages that read and write the tables of a hosted
  store through a client SDK. Each handler is modelled as a function from the page's
  state and the store to the new page state, the new store and what the user is shown.
  A remote call either goes through or returns an error. Whether it goes through is an
  input of the handler, a boolean per call, which stands for everything the pages do
  not decide: the network, the row-level policies and the foreign keys. The one
  constraint of the README's table declarations that is modelled on top of it is
  \<open>UNIQUE(user_id, opportunity_id)\<close> on registrations (with the primary keys), since
  the pages leave the refusal of a duplicate to it. The table \<open>saved_opportunities\<close>
  and the handlers of bookmarks are left out.
\<close>

subsection \<open>Rows of the store (the README's table declarations)\<close>

type_synonym uuid = string

datatype user_type = Student | Organization

datatype registration_status = Reg_registered | Reg_completed | Reg_cancelled

datatype opportunity_status = Opp_active | Opp_inactive | Opp_completed

text \<open>
  Table \<open>profiles\<close>. The declaration of \<open>UserProfile\<close> (AuthContext.tsx) is not
  among the sources; the fields are the table's columns, which are the ones the pages
  read. \<open>service_hours_goal\<close> is nullable: a goal that does not parse is written as
  NaN, which the client serialises as null.
\<close>

record profile_row =
  profile_id :: uuid
  user_type :: user_type
  full_name :: string
  organization_name :: string
  verified :: bool
  service_hours_goal :: "int option"
  total_hours_logged :: int
  address :: string
  profile_city :: string
  profile_state :: string
  profile_zip_code :: string
  phone :: string

text \<open>
  Table \<open>opportunities\<close>, without the columns no handler writes (location, latitude,
  longitude, updated_at).
\<close>

record opportunity_row =
  opp_id :: uuid
  title :: string
  description :: string
  organization_id :: uuid
  cause_category :: string
  hours_needed :: int
  max_volunteers :: int
  current_volunteers :: int
  date :: string
  time :: string
  city :: string
  state :: string
  zip_code :: string
  requirements :: string
  status :: opportunity_status
  created_at :: string

text \<open>Table \<open>volunteer_registrations\<close>; \<open>hours_completed\<close> is nullable.\<close>

record registration_row =
  reg_id :: uuid
  user_id :: uuid
  opportunity_id :: uuid
  registered_at :: string
  reg_status :: registration_status
  hours_completed :: "int option"

record store =
  profiles :: "profile_row list"
  opportunities :: "opportunity_row list"
  volunteer_registrations :: "registration_row list"

subsection \<open>The global \<open>parseInt\<close>, with no radix\<close>

text \<open>
  A \<open>char\<close> stands for a code unit below 256 of the text. Leading white space is
  skipped, a sign is read, a \<open>0x\<close> prefix selects radix 16, and the longest prefix of
  digits is the value; with no digit the result is NaN. The value is a double: an
  integer from \<open>2 ^ 53\<close> on is rounded to 53 significant bits (to the nearest, a tie
  to the even one), and one that rounds to \<open>2 ^ 1024\<close> or more is infinite.
\<close>

datatype js_number = NaN | Num int | Pos_Infinity | Neg_Infinity

text \<open>The white space below 256: tab, line feed, vertical tab, form feed, carriage
  return, space and no-break space.\<close>

definition is_white_space :: "char \<Rightarrow> bool" where
  "is_white_space c =
     (c \<in> set [CHR '' '', CHR 0x09, CHR 0x0A, CHR 0x0B, CHR 0x0C, CHR 0x0D, CHR 0xA0])"

definition digit_value :: "nat \<Rightarrow> char \<Rightarrow> nat option" where
  "digit_value radix c =
     (let n = (of_char c :: nat);
          v = (if 48 \<le> n \<and> n \<le> 57 then Some (n - 48)
               else if 97 \<le> n \<and> n \<le> 122 then Some (n - 87)
               else if 65 \<le> n \<and> n \<le> 90 then Some (n - 55)
               else None)
      in case v of None \<Rightarrow> None | Some d \<Rightarrow> if d < radix then Some d else None)"

fun digits_prefix :: "nat \<Rightarrow> string \<Rightarrow> nat list" where
  "digits_prefix radix [] = []"
| "digits_prefix radix (c # cs) =
     (case digit_value radix c of None \<Rightarrow> [] | Some d \<Rightarrow> d # digits_prefix radix cs)"

definition digits_to_int :: "nat \<Rightarrow> nat list \<Rightarrow> int" where
  "digits_to_int radix ds = foldl (\<lambda>acc d. acc * int radix + int d) 0 ds"

definition parse_digits :: "nat \<Rightarrow> string \<Rightarrow> int option" where
  "parse_digits radix s =
     (case digits_prefix radix s of [] \<Rightarrow> None | d # ds \<Rightarrow> Some (digits_to_int radix (d # ds)))"

definition strip_prefix_0x :: "string \<Rightarrow> string option" where
  "strip_prefix_0x s =
     (case s of
        a # b # rest \<Rightarrow> if a = CHR ''0'' \<and> (b = CHR ''x'' \<or> b = CHR ''X'') then Some rest else None
      | _ \<Rightarrow> None)"

definition parse_unsigned :: "string \<Rightarrow> int option" where
  "parse_unsigned s =
     (case strip_prefix_0x s of Some rest \<Rightarrow> parse_digits 16 rest | None \<Rightarrow> parse_digits 10 s)"

text \<open>The number of bits of a positive integer, and its rounding to a double.\<close>

function bit_length :: "int \<Rightarrow> nat" where
  "bit_length n = (if n \<le> 0 then 0 else Suc (bit_length (n div 2)))"
  by pat_completeness auto
termination
  by (relation "measure nat") auto

definition round_to_double :: "int \<Rightarrow> int option" where
  "round_to_double m =
     (if m < 9007199254740992 then Some m
      else
        let e = bit_length m - 53;
            q = m div 2 ^ e;
            r = m mod 2 ^ e;
            q' = (if 2 * r > 2 ^ e \<or> (2 * r = 2 ^ e \<and> odd q) then q + 1 else q)
        in if q' * 2 ^ e < 2 ^ 1024 then Some (q' * 2 ^ e) else None)"

definition to_number :: "bool \<Rightarrow> int option \<Rightarrow> js_number" where
  "to_number negative magnitude =
     (case magnitude of
        None \<Rightarrow> NaN
      | Some m \<Rightarrow>
          (case round_to_double m of
             None \<Rightarrow> if negative then Neg_Infinity else Pos_Infinity
           | Some d \<Rightarrow> Num (if negative then - d else d)))"

definition parseInt :: "string \<Rightarrow> js_number" where
  "parseInt input =
     (case dropWhile is_white_space input of
        [] \<Rightarrow> NaN
      | c # cs \<Rightarrow>
          if c = CHR ''-'' then to_number True (parse_unsigned cs)
          else if c = CHR ''+'' then to_number False (parse_unsigned cs)
          else to_number False (parse_unsigned (c # cs)))"

text \<open>\<open>JSON.stringify\<close> of a number: NaN and the infinities are written as null.\<close>

definition json_number :: "js_number \<Rightarrow> int option" where
  "json_number x = (case x of Num n \<Rightarrow> Some n | _ \<Rightarrow> None)"

text \<open>\<open>x || 0\<close> for a nullable number \<open>x\<close>: null and 0 are falsy.\<close>

definition or_zero :: "int option \<Rightarrow> int" where
  "or_zero x = (case x of None \<Rightarrow> 0 | Some n \<Rightarrow> n)"

text \<open>\<open>Number.prototype.toString()\<close> of an integer (which prints all the digits of a
  number below \<open>10 ^ 21\<close> in magnitude).\<close>

function nat_toString :: "nat \<Rightarrow> string" where
  "nat_toString n =
     (if n < 10 then [char_of (48 + n)]
      else nat_toString (n div 10) @ [char_of (48 + n mod 10)])"
  by pat_completeness auto
termination
  by (relation "measure id") auto

definition int_toString :: "int \<Rightarrow> string" where
  "int_toString i = (if i < 0 then CHR ''-'' # nat_toString (nat (- i)) else nat_toString (nat i))"

subsection \<open>MyOpportunities.tsx: logging hours\<close>

text \<open>
  An entry of the page's \<open>registeredOpportunities\<close>: a registration of the signed-in
  student joined with its opportunity, of which the page uses \<open>hours_needed\<close> (the
  \<open>max\<close> of the hours input); the other joined fields are only displayed.
\<close>

record registered_opportunity =
  ro_id :: uuid
  ro_opportunity_id :: uuid
  ro_registered_at :: string
  ro_status :: registration_status
  ro_hours_completed :: "int option"
  ro_hours_needed :: int

record my_opportunities_page =
  registeredOpportunities :: "registered_opportunity list"
  editingHours :: "uuid option"
  hoursInput :: string

datatype hours_outcome =
  Hours_saved
  | Hours_failed_alert  \<comment> \<open>alert: Failed to update hours. Please try again.\<close>
  | Hours_no_button  \<comment> \<open>the Save button is not rendered for this entry\<close>
  | Hours_not_finite  \<comment> \<open>the text parses to an infinite number: not modelled\<close>

text \<open>\<open>hours > 0 ? 'completed' : 'registered'\<close>\<close>

definition status_for_hours :: "int \<Rightarrow> registration_status" where
  "status_for_hours hours = (if hours > 0 then Reg_completed else Reg_registered)"

text \<open>
  \<open>from('volunteer_registrations').update({hours_completed, status}).eq('id', id)\<close>:
  every row with that id is overwritten; \<open>None\<close> is a returned error.
\<close>

definition update_registration_hours :: "bool \<Rightarrow> uuid \<Rightarrow> int \<Rightarrow> store \<Rightarrow> store option" where
  "update_registration_hours ok registrationId hours st =
     (if ok then
        Some (st\<lparr>volunteer_registrations :=
          map (\<lambda>r. if reg_id r = registrationId
                    then r\<lparr>hours_completed := Some hours, reg_status := status_for_hours hours\<rparr>
                    else r)
              (volunteer_registrations st)\<rparr>)
      else None)"

text \<open>
  \<open>from('profiles').update({total_hours_logged}).eq('id', id)\<close>; the handler does not
  look at the answer, so an error leaves the store as it was.
\<close>

definition update_total_hours_logged :: "bool \<Rightarrow> uuid \<Rightarrow> int \<Rightarrow> store \<Rightarrow> store" where
  "update_total_hours_logged ok profileId totalHours st =
     (if ok then
        st\<lparr>profiles :=
          map (\<lambda>p. if profile_id p = profileId then p\<lparr>total_hours_logged := totalHours\<rparr> else p)
              (profiles st)\<rparr>
      else st)"

text \<open>\<open>reduce((sum, item) => sum + (item.hours_completed || 0), 0)\<close>\<close>

definition sum_hours_completed :: "registered_opportunity list \<Rightarrow> int" where
  "sum_hours_completed items = foldl (\<lambda>sum item. sum + or_zero (ro_hours_completed item)) 0 items"

text \<open>
  \<open>updateHoursCompleted(registrationId, hours)\<close>. \<open>ok1\<close> and \<open>ok2\<close> say whether the
  two remote calls go through. The total is computed from \<open>registeredOpportunities\<close> as
  the handler's closure holds it, that is the list before \<open>setRegisteredOpportunities\<close>.
\<close>

definition updateHoursCompleted ::
  "bool \<Rightarrow> bool \<Rightarrow> profile_row option \<Rightarrow> my_opportunities_page \<Rightarrow> store \<Rightarrow> uuid \<Rightarrow> int
    \<Rightarrow> my_opportunities_page \<times> store \<times> hours_outcome" where
  "updateHoursCompleted ok1 ok2 userProfile pg st registrationId hours =
     (case update_registration_hours ok1 registrationId hours st of
        None \<Rightarrow> (pg, st, Hours_failed_alert)
      | Some st1 \<Rightarrow>
          let items = map (\<lambda>item. if ro_id item = registrationId
                                   then item\<lparr>ro_hours_completed := Some hours,
                                             ro_status := status_for_hours hours\<rparr>
                                   else item)
                          (registeredOpportunities pg);
              st2 = (case userProfile of
                       None \<Rightarrow> st1
                     | Some p \<Rightarrow>
                         let totalHours = sum_hours_completed (registeredOpportunities pg) + hours
                         in update_total_hours_logged ok2 (profile_id p) totalHours st1)
          in (pg\<lparr>registeredOpportunities := items, editingHours := None, hoursInput := []\<rparr>,
              st2, Hours_saved))"

text \<open>
  The controls of an entry. Log Hours is rendered while the entry's status is
  \<open>registered\<close> and it is not the one being edited; the input and Save are rendered
  while it is. The input carries \<open>min = 0\<close> and \<open>max = hours_needed\<close>, which a
  browser checks when a form is submitted: Save is a plain button with a click handler,
  so the text reaches \<open>parseInt\<close> as typed.
\<close>

definition clickLogHours :: "my_opportunities_page \<Rightarrow> registered_opportunity \<Rightarrow> my_opportunities_page" where
  "clickLogHours pg registration =
     (if registration \<in> set (registeredOpportunities pg) \<and> ro_status registration = Reg_registered
         \<and> editingHours pg \<noteq> Some (ro_id registration)
      then pg\<lparr>editingHours := Some (ro_id registration),
               hoursInput := (case ro_hours_completed registration of
                                None \<Rightarrow> [] | Some h \<Rightarrow> int_toString h)\<rparr>
      else pg)"

definition changeHoursInput :: "my_opportunities_page \<Rightarrow> string \<Rightarrow> my_opportunities_page" where
  "changeHoursInput pg text = pg\<lparr>hoursInput := text\<rparr>"

text \<open>
  \<open>onClick={() => updateHoursCompleted(registration.id, parseInt(hoursInput) || 0)}\<close>.
  NaN and 0 are falsy, so a text that does not parse gives 0 and every other number
  gives itself. A text of more than 308 digits parses to an infinite number, which the
  rows and entries of this model, holding integers, cannot take: the model stops there
  with \<open>Hours_not_finite\<close>.
\<close>

definition clickSaveHours ::
  "bool \<Rightarrow> bool \<Rightarrow> profile_row option \<Rightarrow> my_opportunities_page \<Rightarrow> store \<Rightarrow> registered_opportunity
    \<Rightarrow> my_opportunities_page \<times> store \<times> hours_outcome" where
  "clickSaveHours ok1 ok2 userProfile pg st registration =
     (if registration \<in> set (registeredOpportunities pg) \<and> ro_status registration = Reg_registered
         \<and> editingHours pg = Some (ro_id registration)
      then
        (case parseInt (hoursInput pg) of
           NaN \<Rightarrow> updateHoursCompleted ok1 ok2 userProfile pg st (ro_id registration) 0
         | Num n \<Rightarrow> updateHoursCompleted ok1 ok2 userProfile pg st (ro_id registration) n
         | Pos_Infinity \<Rightarrow> (pg, st, Hours_not_finite)
         | Neg_Infinity \<Rightarrow> (pg, st, Hours_not_finite))
      else (pg, st, Hours_no_button))"

text \<open>
  An observation of the store, for the properties: the sum of \<open>hours_completed\<close>
  (null counting as 0) over a student's rows of \<open>volunteer_registrations\<close>.
\<close>

definition hours_of_student :: "store \<Rightarrow> uuid \<Rightarrow> int" where
  "hours_of_student st uid =
     sum_list (map (\<lambda>r. or_zero (hours_completed r))
                   (filter (\<lambda>r. user_id r = uid) (volunteer_registrations st)))"

subsection \<open>OpportunityDetail.tsx: registering\<close>

text \<open>
  The page's copy of the opportunity (interface \<open>Opportunity\<close>), with the fields the
  handlers use; the others (texts, place, contact) are only displayed. The interface has
  no \<open>status\<close>: \<open>fetchOpportunity\<close> does not copy it.
\<close>

record opportunity_view =
  view_id :: uuid
  view_title :: string
  view_organization_id :: uuid
  view_hours_needed :: int
  view_max_volunteers :: int
  view_current_volunteers :: int

record opportunity_detail_page =
  opportunity :: "opportunity_view option"
  isRegistered :: bool

datatype register_outcome =
  Navigate_login  \<comment> \<open>no user: navigate('/login')\<close>
  | Students_only_alert  \<comment> \<open>alert: Only students can register for volunteer opportunities.\<close>
  | Register_failed_alert  \<comment> \<open>alert: Failed to register for opportunity. Please try again.\<close>
  | Registered
  | Register_no_button  \<comment> \<open>not rendered: no opportunity loaded, or already registered\<close>
  | Register_button_disabled  \<comment> \<open>rendered disabled: Opportunity Full\<close>

text \<open>
  \<open>fetchOpportunity\<close>: \<open>select ... .eq('id', id).single()\<close> is an error unless
  exactly one row matches, and on an error the page keeps what it had.
\<close>

definition fetchOpportunity :: "bool \<Rightarrow> uuid \<Rightarrow> opportunity_detail_page \<Rightarrow> store \<Rightarrow> opportunity_detail_page" where
  "fetchOpportunity ok oid pg st =
     (case (if ok then filter (\<lambda>row. opp_id row = oid) (opportunities st) else []) of
        [data] \<Rightarrow>
          pg\<lparr>opportunity := Some \<lparr>view_id = opp_id data, view_title = title data,
                                   view_organization_id = organization_id data,
                                   view_hours_needed = hours_needed data,
                                   view_max_volunteers = max_volunteers data,
                                   view_current_volunteers = current_volunteers data\<rparr>\<rparr>
      | _ \<Rightarrow> pg)"

text \<open>
  \<open>checkUserStatus\<close>, the registration half: \<open>isRegistered\<close> is whether
  \<open>.single()\<close> returned a row. (The bookmark half sets \<open>isSaved\<close>, which no handler
  below reads.)
\<close>

definition checkUserStatus :: "bool \<Rightarrow> uuid option \<Rightarrow> uuid \<Rightarrow> opportunity_detail_page \<Rightarrow> store \<Rightarrow> opportunity_detail_page" where
  "checkUserStatus ok user oid pg st =
     (case user of
        None \<Rightarrow> pg
      | Some uid \<Rightarrow>
          pg\<lparr>isRegistered :=
            (ok \<and> length (filter (\<lambda>r. user_id r = uid \<and> opportunity_id r = oid)
                                  (volunteer_registrations st)) = 1)\<rparr>)"

text \<open>
  The row an insert of \<open>{user_id, opportunity_id, registered_at, status: 'registered'}\<close>
  adds: the table gives it its id and \<open>hours_completed DEFAULT 0\<close>.
\<close>

definition new_registration :: "uuid \<Rightarrow> uuid \<Rightarrow> uuid \<Rightarrow> string \<Rightarrow> registration_row" where
  "new_registration new_id uid oid now =
     \<lparr>reg_id = new_id, user_id = uid, opportunity_id = oid, registered_at = now,
      reg_status = Reg_registered, hours_completed = Some 0\<rparr>"

text \<open>
  \<open>from('volunteer_registrations').insert({user_id, opportunity_id, registered_at,
  status: 'registered'})\<close>. The table is declared with a primary key \<open>id\<close> (generated by
  the store: \<open>new_id\<close>) and \<open>UNIQUE(user_id, opportunity_id)\<close>. \<open>None\<close> is a
  returned error.
\<close>

definition insert_registration :: "bool \<Rightarrow> uuid \<Rightarrow> uuid \<Rightarrow> uuid \<Rightarrow> string \<Rightarrow> store \<Rightarrow> store option" where
  "insert_registration ok new_id uid oid now st =
     (if ok \<and> \<not> list_ex (\<lambda>r. reg_id r = new_id) (volunteer_registrations st)
            \<and> \<not> list_ex (\<lambda>r. user_id r = uid \<and> opportunity_id r = oid) (volunteer_registrations st)
      then Some (st\<lparr>volunteer_registrations :=
                  volunteer_registrations st @ [new_registration new_id uid oid now]\<rparr>)
      else None)"

text \<open>
  \<open>from('opportunities').update({current_volunteers: n}).eq('id', id)\<close>; the handler does
  not look at the answer.
\<close>

definition update_current_volunteers :: "bool \<Rightarrow> uuid \<Rightarrow> int \<Rightarrow> store \<Rightarrow> store" where
  "update_current_volunteers ok oid n st =
     (if ok then
        st\<lparr>opportunities :=
          map (\<lambda>row. if opp_id row = oid then row\<lparr>current_volunteers := n\<rparr> else row)
              (opportunities st)\<rparr>
      else st)"

text \<open>
  \<open>registerForOpportunity\<close>. \<open>id\<close> is the route's parameter, \<open>now\<close> the clock's
  \<open>toISOString()\<close>. The count written is the page's copy plus one,
  \<open>(opportunity?.current_volunteers || 0) + 1\<close>.
\<close>

definition registerForOpportunity ::
  "bool \<Rightarrow> bool \<Rightarrow> uuid \<Rightarrow> string \<Rightarrow> uuid option \<Rightarrow> profile_row option \<Rightarrow> uuid
    \<Rightarrow> opportunity_detail_page \<Rightarrow> store \<Rightarrow> opportunity_detail_page \<times> store \<times> register_outcome" where
  "registerForOpportunity okInsert okUpdate new_id now user userProfile oid pg st =
     (case user of
        None \<Rightarrow> (pg, st, Navigate_login)
      | Some uid \<Rightarrow>
          if map_option user_type userProfile \<noteq> Some Student then (pg, st, Students_only_alert)
          else
            (case insert_registration okInsert new_id uid oid now st of
               None \<Rightarrow> (pg, st, Register_failed_alert)
             | Some st1 \<Rightarrow>
                 let n = (case opportunity pg of None \<Rightarrow> 0 | Some opp \<Rightarrow> view_current_volunteers opp) + 1;
                     st2 = update_current_volunteers okUpdate oid n st1;
                     pg2 = pg\<lparr>isRegistered := True,
                              opportunity :=
                                map_option (\<lambda>opp. opp\<lparr>view_current_volunteers := view_current_volunteers opp + 1\<rparr>)
                                           (opportunity pg)\<rparr>
                 in (pg2, st2, Registered)))"

text \<open>
  The Register button: the page shows it when an opportunity is loaded and
  \<open>isRegistered\<close> is false, disabled when the page's copy has
  \<open>current_volunteers >= max_volunteers\<close>.
\<close>

definition clickRegister ::
  "bool \<Rightarrow> bool \<Rightarrow> uuid \<Rightarrow> string \<Rightarrow> uuid option \<Rightarrow> profile_row option \<Rightarrow> uuid
    \<Rightarrow> opportunity_detail_page \<Rightarrow> store \<Rightarrow> opportunity_detail_page \<times> store \<times> register_outcome" where
  "clickRegister okInsert okUpdate new_id now user userProfile oid pg st =
     (case opportunity pg of
        None \<Rightarrow> (pg, st, Register_no_button)
      | Some opp \<Rightarrow>
          if isRegistered pg then (pg, st, Register_no_button)
          else if view_current_volunteers opp \<ge> view_max_volunteers opp then (pg, st, Register_button_disabled)
          else registerForOpportunity okInsert okUpdate new_id now user userProfile oid pg st)"

text \<open>
  Observations of the store, for the properties: the stored row of an opportunity, the
  bound on its count, and whether a student has a registration for an opportunity.
\<close>

definition stored_opportunity :: "store \<Rightarrow> uuid \<Rightarrow> opportunity_row option" where
  "stored_opportunity st oid = find (\<lambda>row. opp_id row = oid) (opportunities st)"


definition has_registration :: "store \<Rightarrow> uuid \<Rightarrow> uuid \<Rightarrow> bool" where
  "has_registration st uid oid =
     list_ex (\<lambda>r. user_id r = uid \<and> opportunity_id r = oid) (volunteer_registrations st)"

subsection \<open>ForOrganizations.tsx: the organization's dashboard\<close>

record form_data =
  form_title :: string
  form_description :: string
  form_cause_category :: string
  form_hours_needed :: int
  form_max_volunteers :: int
  form_date :: string
  form_time :: string
  form_city :: string
  form_state :: string
  form_zip_code :: string
  form_requirements :: string

text \<open>
  The page's state; \<open>opportunities_state\<close> is the state variable \<open>opportunities\<close>,
  whose entries are rows as \<open>select('*')\<close> returns them.
\<close>

record for_organizations_page =
  opportunities_state :: "opportunity_row list"
  showForm :: bool
  editingOpportunity :: "opportunity_row option"
  formData :: form_data

datatype submit_outcome =
  Only_organizations_alert  \<comment> \<open>alert: Only organizations can post opportunities.\<close>
  | Not_verified_alert  \<comment> \<open>alert: Your organization must be verified before posting ...\<close>
  | Save_failed_alert  \<comment> \<open>alert: Failed to save opportunity. Please try again.\<close>
  | Saved
  | Submit_no_form  \<comment> \<open>the form is not rendered\<close>

datatype delete_outcome =
  Delete_not_confirmed
  | Delete_failed_alert  \<comment> \<open>alert: Failed to delete opportunity. Please try again.\<close>
  | Deleted
  | Delete_no_button  \<comment> \<open>the dashboard does not list this opportunity\<close>

definition initial_formData :: form_data where
  "initial_formData =
     \<lparr>form_title = [], form_description = [], form_cause_category = ''STEM'',
      form_hours_needed = 2, form_max_volunteers = 10, form_date = [], form_time = [],
      form_city = [], form_state = ''TX'', form_zip_code = [], form_requirements = []\<rparr>"

text \<open>
  \<open>opportunityData = {...formData, organization_id: user.id, status: 'active',
  current_volunteers: 0, created_at: now}\<close>, written over a row: these are all the
  columns of the row but its id.
\<close>

definition write_opportunityData :: "form_data \<Rightarrow> uuid \<Rightarrow> string \<Rightarrow> opportunity_row \<Rightarrow> opportunity_row" where
  "write_opportunityData fd uid now row =
     row\<lparr>title := form_title fd, description := form_description fd,
         cause_category := form_cause_category fd, hours_needed := form_hours_needed fd,
         max_volunteers := form_max_volunteers fd, date := form_date fd, time := form_time fd,
         city := form_city fd, state := form_state fd, zip_code := form_zip_code fd,
         requirements := form_requirements fd,
         organization_id := uid, status := Opp_active, current_volunteers := 0, created_at := now\<rparr>"

definition update_opportunity :: "bool \<Rightarrow> uuid \<Rightarrow> form_data \<Rightarrow> uuid \<Rightarrow> string \<Rightarrow> store \<Rightarrow> store option" where
  "update_opportunity ok oid fd uid now st =
     (if ok then
        Some (st\<lparr>opportunities :=
          map (\<lambda>row. if opp_id row = oid then write_opportunityData fd uid now row else row)
              (opportunities st)\<rparr>)
      else None)"

definition insert_opportunity :: "bool \<Rightarrow> uuid \<Rightarrow> form_data \<Rightarrow> uuid \<Rightarrow> string \<Rightarrow> store \<Rightarrow> store option" where
  "insert_opportunity ok new_id fd uid now st =
     (if ok \<and> \<not> list_ex (\<lambda>row. opp_id row = new_id) (opportunities st) then
        Some (st\<lparr>opportunities := opportunities st @
          [write_opportunityData fd uid now
             \<lparr>opp_id = new_id, title = [], description = [], organization_id = uid,
              cause_category = [], hours_needed = 0, max_volunteers = 0, current_volunteers = 0,
              date = [], time = [], city = [], state = [], zip_code = [], requirements = [],
              status = Opp_active, created_at = now\<rparr>]\<rparr>)
      else None)"

definition delete_opportunity :: "bool \<Rightarrow> uuid \<Rightarrow> store \<Rightarrow> store option" where
  "delete_opportunity ok oid st =
     (if ok then Some (st\<lparr>opportunities := filter (\<lambda>row. opp_id row \<noteq> oid) (opportunities st)\<rparr>)
      else None)"

text \<open>
  \<open>fetchOrganizationOpportunities\<close>: the rows with \<open>organization_id = user.id\<close>; on an
  error the page keeps its list. The order (\<open>created_at\<close>, descending) is not modelled:
  no handler depends on it.
\<close>

definition fetchOrganizationOpportunities :: "bool \<Rightarrow> uuid option \<Rightarrow> for_organizations_page \<Rightarrow> store \<Rightarrow> for_organizations_page" where
  "fetchOrganizationOpportunities ok user pg st =
     (case user of
        None \<Rightarrow> pg
      | Some uid \<Rightarrow>
          if ok then pg\<lparr>opportunities_state := filter (\<lambda>row. organization_id row = uid) (opportunities st)\<rparr>
          else pg)"

text \<open>
  \<open>handleSubmit\<close> of the dashboard's form, for a new opportunity and for an edited one
  alike: both gates come before the branch on \<open>editingOpportunity\<close>.
\<close>

definition ForOrganizations_handleSubmit ::
  "bool \<Rightarrow> bool \<Rightarrow> uuid \<Rightarrow> string \<Rightarrow> uuid option \<Rightarrow> profile_row option
    \<Rightarrow> for_organizations_page \<Rightarrow> store \<Rightarrow> for_organizations_page \<times> store \<times> submit_outcome" where
  "ForOrganizations_handleSubmit okWrite okFetch new_id now user userProfile pg st =
     (case user of
        None \<Rightarrow> (pg, st, Only_organizations_alert)
      | Some uid \<Rightarrow>
          if map_option user_type userProfile \<noteq> Some Organization then (pg, st, Only_organizations_alert)
          else if map_option verified userProfile \<noteq> Some True then (pg, st, Not_verified_alert)
          else
            (case (case editingOpportunity pg of
                     Some editing \<Rightarrow> update_opportunity okWrite (opp_id editing) (formData pg) uid now st
                   | None \<Rightarrow> insert_opportunity okWrite new_id (formData pg) uid now st) of
               None \<Rightarrow> (pg, st, Save_failed_alert)
             | Some st1 \<Rightarrow>
                 (fetchOrganizationOpportunities okFetch user
                    (pg\<lparr>formData := initial_formData, showForm := False, editingOpportunity := None\<rparr>) st1,
                  st1, Saved)))"

definition handleEdit :: "for_organizations_page \<Rightarrow> opportunity_row \<Rightarrow> for_organizations_page" where
  "handleEdit pg opp =
     pg\<lparr>editingOpportunity := Some opp,
        formData := \<lparr>form_title = title opp, form_description = description opp,
                     form_cause_category = cause_category opp, form_hours_needed = hours_needed opp,
                     form_max_volunteers = max_volunteers opp, form_date = date opp,
                     form_time = time opp, form_city = city opp, form_state = ''TX'',
                     form_zip_code = [], form_requirements = []\<rparr>,
        showForm := True\<rparr>"

text \<open>\<open>handleDelete\<close>; \<open>confirmed\<close> is the answer to the \<open>confirm\<close> dialog.\<close>

definition handleDelete ::
  "bool \<Rightarrow> bool \<Rightarrow> bool \<Rightarrow> uuid option \<Rightarrow> for_organizations_page \<Rightarrow> store \<Rightarrow> uuid
    \<Rightarrow> for_organizations_page \<times> store \<times> delete_outcome" where
  "handleDelete confirmed okDelete okFetch user pg st opportunityId =
     (if \<not> confirmed then (pg, st, Delete_not_confirmed)
      else
        (case delete_opportunity okDelete opportunityId st of
           None \<Rightarrow> (pg, st, Delete_failed_alert)
         | Some st1 \<Rightarrow> (fetchOrganizationOpportunities okFetch user pg st1, st1, Deleted)))"

text \<open>
  What the page renders. Without a user of type organization it is the information
  page. The dashboard lists \<open>opportunities_state\<close> with an Edit and a Delete button on
  each entry, whatever \<open>verified\<close> is; the form is rendered while \<open>showForm\<close> holds.
\<close>

definition dashboard_shown :: "uuid option \<Rightarrow> profile_row option \<Rightarrow> bool" where
  "dashboard_shown user userProfile = (user \<noteq> None \<and> map_option user_type userProfile = Some Organization)"

definition clickEdit :: "uuid option \<Rightarrow> profile_row option \<Rightarrow> for_organizations_page \<Rightarrow> opportunity_row \<Rightarrow> for_organizations_page" where
  "clickEdit user userProfile pg opp =
     (if dashboard_shown user userProfile \<and> opp \<in> set (opportunities_state pg) then handleEdit pg opp else pg)"

definition clickDelete ::
  "bool \<Rightarrow> bool \<Rightarrow> bool \<Rightarrow> uuid option \<Rightarrow> profile_row option \<Rightarrow> for_organizations_page \<Rightarrow> store
    \<Rightarrow> opportunity_row \<Rightarrow> for_organizations_page \<times> store \<times> delete_outcome" where
  "clickDelete confirmed okDelete okFetch user userProfile pg st opp =
     (if dashboard_shown user userProfile \<and> opp \<in> set (opportunities_state pg)
      then handleDelete confirmed okDelete okFetch user pg st (opp_id opp)
      else (pg, st, Delete_no_button))"

definition submitForm ::
  "bool \<Rightarrow> bool \<Rightarrow> uuid \<Rightarrow> string \<Rightarrow> uuid option \<Rightarrow> profile_row option
    \<Rightarrow> for_organizations_page \<Rightarrow> store \<Rightarrow> for_organizations_page \<times> store \<times> submit_outcome" where
  "submitForm okWrite okFetch new_id now user userProfile pg st =
     (if dashboard_shown user userProfile \<and> showForm pg
      then ForOrganizations_handleSubmit okWrite okFetch new_id now user userProfile pg st
      else (pg, st, Submit_no_form))"

subsection \<open>Profile.tsx and OrganizationRegister.tsx: the fields an account writes\<close>

text \<open>
  \<open>updates\<close> and \<open>userData\<close> are plain objects: a list of keys with their values,
  in the order the handler assigns them, the values as they are written to the store: a
  number that did not parse is null, \<open>Number None\<close>.
\<close>

datatype field_value = Text string | Number "int option" | Flag bool

type_synonym fields = "(string \<times> field_value) list"

record profile_formData =
  pf_full_name :: string
  pf_service_hours_goal :: string
  pf_organization_name :: string
  pf_address :: string
  pf_city :: string
  pf_state :: string
  pf_zip_code :: string
  pf_phone :: string

datatype profile_outcome =
  Profile_updated  \<comment> \<open>message: Profile updated successfully!\<close>
  | Profile_error  \<comment> \<open>message: the error's, or Failed to update profile\<close>

text \<open>
  The object \<open>updates\<close> that \<open>handleSubmit\<close> of the profile page builds.
  \<open>pf_service_hours_goal\<close> is \<open>formData.service_hours_goal.toString()\<close>.
\<close>

definition profile_updates :: "profile_row option \<Rightarrow> profile_formData \<Rightarrow> fields" where
  "profile_updates userProfile fd =
     (case map_option user_type userProfile of
        Some Student \<Rightarrow>
          [(''full_name'', Text (pf_full_name fd)),
           (''service_hours_goal'', Number (json_number (parseInt (pf_service_hours_goal fd))))]
      | Some Organization \<Rightarrow>
          [(''full_name'', Text (pf_full_name fd)),
           (''organization_name'', Text (pf_organization_name fd)),
           (''address'', Text (pf_address fd)),
           (''city'', Text (pf_city fd)),
           (''state'', Text (pf_state fd)),
           (''zip_code'', Text (pf_zip_code fd)),
           (''phone'', Text (pf_phone fd))]
      | None \<Rightarrow> [])"

text \<open>
  The store writing one column of a \<open>profiles\<close> row. Every column the table declares
  can be written, \<open>verified\<close> included: the table has no column that an update of
  one's own row cannot set. An unknown column or a value of the wrong type is an error.
\<close>

definition set_profile_column :: "string \<Rightarrow> field_value \<Rightarrow> profile_row \<Rightarrow> profile_row option" where
  "set_profile_column column v row =
     (if column = ''full_name'' then (case v of Text s \<Rightarrow> Some (row\<lparr>full_name := s\<rparr>) | _ \<Rightarrow> None)
      else if column = ''organization_name'' then (case v of Text s \<Rightarrow> Some (row\<lparr>organization_name := s\<rparr>) | _ \<Rightarrow> None)
      else if column = ''address'' then (case v of Text s \<Rightarrow> Some (row\<lparr>address := s\<rparr>) | _ \<Rightarrow> None)
      else if column = ''city'' then (case v of Text s \<Rightarrow> Some (row\<lparr>profile_city := s\<rparr>) | _ \<Rightarrow> None)
      else if column = ''state'' then (case v of Text s \<Rightarrow> Some (row\<lparr>profile_state := s\<rparr>) | _ \<Rightarrow> None)
      else if column = ''zip_code'' then (case v of Text s \<Rightarrow> Some (row\<lparr>profile_zip_code := s\<rparr>) | _ \<Rightarrow> None)
      else if column = ''phone'' then (case v of Text s \<Rightarrow> Some (row\<lparr>phone := s\<rparr>) | _ \<Rightarrow> None)
      else if column = ''service_hours_goal'' then (case v of Number n \<Rightarrow> Some (row\<lparr>service_hours_goal := n\<rparr>) | _ \<Rightarrow> None)
      else if column = ''total_hours_logged'' then (case v of Number (Some n) \<Rightarrow> Some (row\<lparr>total_hours_logged := n\<rparr>) | _ \<Rightarrow> None)
      else if column = ''verified'' then (case v of Flag b \<Rightarrow> Some (row\<lparr>verified := b\<rparr>) | _ \<Rightarrow> None)
      else None)"

fun set_profile_columns :: "fields \<Rightarrow> profile_row \<Rightarrow> profile_row option" where
  "set_profile_columns [] row = Some row"
| "set_profile_columns ((column, v) # rest) row =
     (case set_profile_column column v row of
        None \<Rightarrow> None
      | Some row' \<Rightarrow> set_profile_columns rest row')"

fun update_profile_rows :: "uuid \<Rightarrow> fields \<Rightarrow> profile_row list \<Rightarrow> profile_row list option" where
  "update_profile_rows uid updates [] = Some []"
| "update_profile_rows uid updates (row # rows) =
     (case (if profile_id row = uid then set_profile_columns updates row else Some row) of
        None \<Rightarrow> None
      | Some row' \<Rightarrow> map_option (\<lambda>rows'. row' # rows') (update_profile_rows uid updates rows))"

text \<open>
  Modelled from the spec: \<open>updateProfile\<close> of AuthContext.tsx is not among the sources.
  Following the spec's \<open>update(entityType, id, fields)\<close> with \<open>actor.id = target.id\<close>, it
  writes the given fields to the row of \<open>profiles\<close> whose id is the signed-in user's, and
  answers with an error (\<open>None\<close>) or not.
\<close>

definition updateProfile :: "bool \<Rightarrow> uuid option \<Rightarrow> fields \<Rightarrow> store \<Rightarrow> store option" where
  "updateProfile ok user updates st =
     (case user of
        None \<Rightarrow> None
      | Some uid \<Rightarrow>
          if ok then map_option (\<lambda>rows. st\<lparr>profiles := rows\<rparr>) (update_profile_rows uid updates (profiles st))
          else None)"

text \<open>\<open>handleSubmit\<close> of the profile page.\<close>

definition Profile_handleSubmit ::
  "bool \<Rightarrow> uuid option \<Rightarrow> profile_row option \<Rightarrow> profile_formData \<Rightarrow> store \<Rightarrow> store \<times> profile_outcome" where
  "Profile_handleSubmit ok user userProfile fd st =
     (case updateProfile ok user (profile_updates userProfile fd) st of
        None \<Rightarrow> (st, Profile_error)
      | Some st' \<Rightarrow> (st', Profile_updated))"

record organization_register_formData =
  organizationName :: string
  contactPerson :: string
  email :: string
  password :: string
  confirmPassword :: string
  reg_address :: string
  reg_city :: string
  reg_state :: string
  zipCode :: string
  reg_phone :: string

datatype register_error =
  Passwords_do_not_match
  | Password_too_short  \<comment> \<open>Password must be at least 6 characters long\<close>

text \<open>
  \<open>handleSubmit\<close> of the organization's sign-up form, up to its call of \<open>signUp\<close>
  (AuthContext.tsx, not among the sources): the validation, and the \<open>userData\<close> it
  passes on.
\<close>

definition OrganizationRegister_userData :: "organization_register_formData \<Rightarrow> register_error + fields" where
  "OrganizationRegister_userData fd =
     (if password fd \<noteq> confirmPassword fd then Inl Passwords_do_not_match
      else if length (password fd) < 6 then Inl Password_too_short
      else Inr
        [(''full_name'', Text (contactPerson fd)),
         (''user_type'', Text ''organization''),
         (''organization_name'', Text (organizationName fd)),
         (''verified'', Flag False),
         (''address'', Text (reg_address fd @ '', '' @ reg_city fd @ '', '' @ reg_state fd @ '' '' @ zipCode fd)),
         (''phone'', Text (reg_phone fd))])"

subsection \<open>Example rows and pages\<close>

definition ex_student :: profile_row where
  "ex_student =
     \<lparr>profile_id = ''s1'', user_type = Student, full_name = ''Sam'', organization_name = [],
      verified = False, service_hours_goal = Some 100, total_hours_logged = 0, address = [],
      profile_city = [], profile_state = [], profile_zip_code = [], phone = []\<rparr>"

definition ex_organization :: profile_row where
  "ex_organization =
     \<lparr>profile_id = ''g1'', user_type = Organization, full_name = ''Olga'',
      organization_name = ''Food Bank'', verified = False, service_hours_goal = Some 100,
      total_hours_logged = 0, address = [], profile_city = [], profile_state = [],
      profile_zip_code = [], phone = []\<rparr>"

definition ex_opportunity :: opportunity_row where
  "ex_opportunity =
     \<lparr>opp_id = ''o1'', title = ''Food Drive'', description = [], organization_id = ''g1'',
      cause_category = ''Other'', hours_needed = 5, max_volunteers = 10, current_volunteers = 5,
      date = [], time = [], city = [], state = ''TX'', zip_code = [], requirements = [],
      status = Opp_active, created_at = ''t0''\<rparr>"

definition ex_registration :: registration_row where
  "ex_registration =
     \<lparr>reg_id = ''r1'', user_id = ''s1'', opportunity_id = ''o1'', registered_at = ''t1'',
      reg_status = Reg_registered, hours_completed = Some 0\<rparr>"

text \<open>A store with the student not yet registered, and one with the registration.\<close>

definition ex_store :: store where
  "ex_store = \<lparr>profiles = [ex_student, ex_organization], opportunities = [ex_opportunity],
               volunteer_registrations = []\<rparr>"

definition ex_store_registered :: store where
  "ex_store_registered = ex_store\<lparr>volunteer_registrations := [ex_registration]\<rparr>"

text \<open>The student's MyOpportunities page as loaded from \<open>ex_store_registered\<close>.\<close>

definition ex_entry :: registered_opportunity where
  "ex_entry =
     \<lparr>ro_id = ''r1'', ro_opportunity_id = ''o1'', ro_registered_at = ''t1'',
      ro_status = Reg_registered, ro_hours_completed = Some 0, ro_hours_needed = 5\<rparr>"

definition ex_my_page :: my_opportunities_page where
  "ex_my_page = \<lparr>registeredOpportunities = [ex_entry], editingHours = None, hoursInput = []\<rparr>"

text \<open>The same page and store after \<open>-3\<close> was typed and saved for the entry.\<close>

definition ex_entry_minus3 :: registered_opportunity where
  "ex_entry_minus3 = ex_entry\<lparr>ro_hours_completed := Some (- 3)\<rparr>"

definition ex_my_page_minus3 :: my_opportunities_page where
  "ex_my_page_minus3 = \<lparr>registeredOpportunities = [ex_entry_minus3], editingHours = None, hoursInput = []\<rparr>"

definition ex_store_minus3 :: store where
  "ex_store_minus3 =
     \<lparr>profiles = [ex_student\<lparr>total_hours_logged := - 3\<rparr>, ex_organization],
      opportunities = [ex_opportunity],
      volunteer_registrations = [ex_registration\<lparr>hours_completed := Some (- 3)\<rparr>]\<rparr>"

text \<open>And after \<open>5\<close> was then typed and saved for the same entry.\<close>

definition ex_my_page_5 :: my_opportunities_page where
  "ex_my_page_5 =
     \<lparr>registeredOpportunities = [ex_entry\<lparr>ro_hours_completed := Some 5, ro_status := Reg_completed\<rparr>],
      editingHours = None, hoursInput = []\<rparr>"

definition ex_store_5 :: store where
  "ex_store_5 =
     \<lparr>profiles = [ex_student\<lparr>total_hours_logged := 2\<rparr>, ex_organization],
      opportunities = [ex_opportunity],
      volunteer_registrations =
        [ex_registration\<lparr>hours_completed := Some 5, reg_status := Reg_completed\<rparr>]\<rparr>"

text \<open>The student's detail page of the opportunity, as loaded from \<open>ex_store\<close>.\<close>

definition ex_detail_page :: opportunity_detail_page where
  "ex_detail_page =
     checkUserStatus True (Some ''s1'') ''o1''
       (fetchOpportunity True ''o1'' \<lparr>opportunity = None, isRegistered = False\<rparr> ex_store) ex_store"

text \<open>The organization, verified, and its dashboard with the opportunity opened for editing
  and the ceiling lowered to 3 in the form.\<close>

definition ex_verified_organization :: profile_row where
  "ex_verified_organization = ex_organization\<lparr>verified := True\<rparr>"

definition ex_dashboard :: for_organizations_page where
  "ex_dashboard =
     fetchOrganizationOpportunities True (Some ''g1'')
       \<lparr>opportunities_state = [], showForm = False, editingOpportunity = None,
        formData = initial_formData\<rparr> ex_store"

definition ex_dashboard_editing :: for_organizations_page where
  "ex_dashboard_editing =
     (let pg = clickEdit (Some ''g1'') (Some ex_verified_organization) ex_dashboard ex_opportunity
      in pg\<lparr>formData := (formData pg)\<lparr>form_max_volunteers := 3\<rparr>\<rparr>)"


text \<open>
  The store after five more students registered from pages of their own: the
  opportunity is full.
\<close>

definition ex_store_full :: store where
  "ex_store_full = ex_store\<lparr>opportunities := [ex_opportunity\<lparr>current_volunteers := 10\<rparr>]\<rparr>"

text \<open>A store whose opportunity is inactive.\<close>

definition ex_store_inactive :: store where
  "ex_store_inactive = ex_store\<lparr>opportunities := [ex_opportunity\<lparr>status := Opp_inactive\<rparr>]\<rparr>"

definition ex_detail_page_inactive :: opportunity_detail_page where
  "ex_detail_page_inactive =
     checkUserStatus True (Some ''s1'') ''o1''
       (fetchOpportunity True ''o1'' \<lparr>opportunity = None, isRegistered = False\<rparr> ex_store_inactive)
       ex_store_inactive"

text \<open>The unverified organization's dashboard with its opportunity opened for editing.\<close>

definition ex_dashboard_unverified_editing :: for_organizations_page where
  "ex_dashboard_unverified_editing =
     clickEdit (Some ''g1'') (Some ex_organization) ex_dashboard ex_opportunity"

text \<open>The dashboard with the form opened for a new opportunity.\<close>

definition ex_dashboard_new :: for_organizations_page where
  "ex_dashboard_new = ex_dashboard\<lparr>showForm := True, formData := initial_formData\<lparr>form_title := ''Food Drive''\<rparr>\<rparr>"

text \<open>The verified organization's dashboard over the store whose opportunity is inactive,
  with that opportunity opened for editing.\<close>

definition ex_dashboard_inactive_editing :: for_organizations_page where
  "ex_dashboard_inactive_editing =
     (let pg = fetchOrganizationOpportunities True (Some ''g1'')
                 \<lparr>opportunities_state = [], showForm = False, editingOpportunity = None,
                  formData = initial_formData\<rparr> ex_store_inactive
      in clickEdit (Some ''g1'') (Some ex_verified_organization) pg (ex_opportunity\<lparr>status := Opp_inactive\<rparr>))"

text \<open>What the student and the organization type into the profile form.\<close>

definition ex_profile_form :: profile_formData where
  "ex_profile_form =
     \<lparr>pf_full_name = ''Sam S'', pf_service_hours_goal = ''120'', pf_organization_name = [],
      pf_address = ''1 Main St'', pf_city = ''Dallas'', pf_state = ''TX'', pf_zip_code = ''75001'',
      pf_phone = ''555''\<rparr>"

definition ex_register_form :: organization_register_formData where
  "ex_register_form =
     \<lparr>organizationName = ''Food Bank'', contactPerson = ''Olga'', email = ''o@fb.org'',
      password = ''secret1'', confirmPassword = ''secret1'', reg_address = ''1 Main St'',
      reg_city = ''Dallas'', reg_state = ''TX'', zipCode = ''75001'', reg_phone = ''555''\<rparr>"

section \<open>Properties\<close>

subsection \<open>The definitions, for unfolding\<close>

lemmas ex_defs = ex_student_def ex_organization_def ex_opportunity_def ex_registration_def
  ex_store_def ex_store_registered_def ex_entry_def ex_my_page_def

lemmas parse_defs = parseInt_def is_white_space_def parse_unsigned_def strip_prefix_0x_def
  parse_digits_def digit_value_def digits_to_int_def to_number_def round_to_double_def
  json_number_def

lemmas hours_defs = updateHoursCompleted_def update_registration_hours_def
  update_total_hours_logged_def sum_hours_completed_def status_for_hours_def or_zero_def

lemmas ex_hours_defs = ex_entry_minus3_def ex_my_page_minus3_def ex_store_minus3_def
  ex_my_page_5_def ex_store_5_def

lemmas click_hours_defs = clickSaveHours_def clickLogHours_def changeHoursInput_def

lemmas register_defs = registerForOpportunity_def insert_registration_def new_registration_def
  update_current_volunteers_def clickRegister_def

lemmas dashboard_defs = ForOrganizations_handleSubmit_def update_opportunity_def
  insert_opportunity_def delete_opportunity_def fetchOrganizationOpportunities_def
  write_opportunityData_def handleEdit_def handleDelete_def dashboard_shown_def clickEdit_def
  clickDelete_def submitForm_def initial_formData_def

lemmas profile_defs = Profile_handleSubmit_def updateProfile_def profile_updates_def
  set_profile_column_def

subsection \<open>Logging hours\<close>

lemma updateHoursCompleted_saved:
  "updateHoursCompleted ok1 ok2 userProfile pg st rid h = (pg', st', Hours_saved) \<Longrightarrow> ok1"
  by (auto simp: updateHoursCompleted_def update_registration_hours_def Let_def split: if_splits option.splits)

lemma updateHoursCompleted_rows:
  "updateHoursCompleted ok1 ok2 userProfile pg st rid h = (pg', st', Hours_saved) \<Longrightarrow>
   volunteer_registrations st' =
     map (\<lambda>r. if reg_id r = rid then r\<lparr>hours_completed := Some h, reg_status := status_for_hours h\<rparr> else r)
         (volunteer_registrations st)"
  by (auto simp: updateHoursCompleted_def update_registration_hours_def update_total_hours_logged_def Let_def split: if_splits option.splits)

lemma updateHoursCompleted_entries:
  "updateHoursCompleted ok1 ok2 userProfile pg st rid h = (pg', st', Hours_saved) \<Longrightarrow>
   registeredOpportunities pg' =
     map (\<lambda>item. if ro_id item = rid
                  then item\<lparr>ro_hours_completed := Some h, ro_status := status_for_hours h\<rparr> else item)
         (registeredOpportunities pg)"
  by (auto simp: updateHoursCompleted_def update_registration_hours_def Let_def split: if_splits option.splits)

text \<open>
  C5. A successful update of a registration's hours to \<open>h\<close> leaves every row and
  every entry of the page with that id holding \<open>h\<close>, with status \<open>completed\<close> when
  \<open>h > 0\<close> and \<open>registered\<close> otherwise; no row is added or removed.
\<close>

theorem updateHoursCompleted_sets_status:
  assumes "updateHoursCompleted ok1 ok2 userProfile pg st registrationId h = (pg', st', Hours_saved)"
  shows "map reg_id (volunteer_registrations st') = map reg_id (volunteer_registrations st)
       \<and> (\<forall>r \<in> set (volunteer_registrations st'). reg_id r = registrationId \<longrightarrow>
             hours_completed r = Some h \<and> reg_status r = (if h > 0 then Reg_completed else Reg_registered))
       \<and> (\<forall>item \<in> set (registeredOpportunities pg'). ro_id item = registrationId \<longrightarrow>
             ro_hours_completed item = Some h \<and> ro_status item = (if h > 0 then Reg_completed else Reg_registered))"
proof -
  note rows = updateHoursCompleted_rows [OF assms]
  note entries = updateHoursCompleted_entries [OF assms]
  have a: "map reg_id (volunteer_registrations st') = map reg_id (volunteer_registrations st)"
    unfolding rows by (induction "volunteer_registrations st") auto
  have b: "hours_completed r = Some h \<and> reg_status r = (if h > 0 then Reg_completed else Reg_registered)"
    if "r \<in> set (volunteer_registrations st')" "reg_id r = registrationId" for r
  proof -
    from that(1) obtain r0 where "r0 \<in> set (volunteer_registrations st)"
      and r: "r = (if reg_id r0 = registrationId
                   then r0\<lparr>hours_completed := Some h, reg_status := status_for_hours h\<rparr> else r0)"
      unfolding rows by auto
    from r that(2) have "r = r0\<lparr>hours_completed := Some h, reg_status := status_for_hours h\<rparr>"
      by (cases "reg_id r0 = registrationId") simp_all
    then show ?thesis by (simp add: status_for_hours_def)
  qed
  have c: "ro_hours_completed item = Some h \<and> ro_status item = (if h > 0 then Reg_completed else Reg_registered)"
    if "item \<in> set (registeredOpportunities pg')" "ro_id item = registrationId" for item
  proof -
    from that(1) obtain i0 where "i0 \<in> set (registeredOpportunities pg)"
      and i: "item = (if ro_id i0 = registrationId
                      then i0\<lparr>ro_hours_completed := Some h, ro_status := status_for_hours h\<rparr> else i0)"
      unfolding entries by auto
    from i that(2) have "item = i0\<lparr>ro_hours_completed := Some h, ro_status := status_for_hours h\<rparr>"
      by (cases "ro_id i0 = registrationId") simp_all
    then show ?thesis by (simp add: status_for_hours_def)
  qed
  from a b c show ?thesis by blast
qed


theorem updateHoursCompleted_sets_status_witness:
  "\<exists>pg' st'.
      updateHoursCompleted True True (Some ex_student) ex_my_page ex_store_registered ''r1'' 3
        = (pg', st', Hours_saved)
      \<and> map reg_status (volunteer_registrations st') = [Reg_completed]
      \<and> map hours_completed (volunteer_registrations st') = [Some 3]"
proof -
  obtain pg' st' where
    e: "updateHoursCompleted True True (Some ex_student) ex_my_page ex_store_registered ''r1'' 3
          = (pg', st', Hours_saved)"
    by (simp add: hours_defs Let_def)
  note t = updateHoursCompleted_sets_status [OF e]
  from t have "map reg_id (volunteer_registrations st') = [''r1'']"
    by (simp add: ex_store_registered_def ex_registration_def)
  then obtain r where r: "volunteer_registrations st' = [r]" "reg_id r = ''r1''"
    by (auto simp: map_eq_Cons_conv)
  with t have "hours_completed r = Some 3 \<and> reg_status r = Reg_completed"
    by simp
  with e r show ?thesis by simp
qed

lemma parseInt_minus3: "parseInt ''-3'' = Num (- 3)"
  by (simp add: parse_defs)

lemma parseInt_5: "parseInt ''5'' = Num 5"
  by (simp add: parse_defs)




lemma save_minus3:
  "clickSaveHours True True (Some ex_student)
     (changeHoursInput (clickLogHours ex_my_page ex_entry) ''-3'') ex_store_registered ex_entry
   = (ex_my_page_minus3, ex_store_minus3, Hours_saved)"
  by (simp add: click_hours_defs hours_defs ex_defs ex_hours_defs parseInt_minus3 Let_def)

lemma save_5:
  "clickSaveHours True True (Some ex_student)
     (changeHoursInput (clickLogHours ex_my_page_minus3 ex_entry_minus3) ''5'') ex_store_minus3 ex_entry_minus3
   = (ex_my_page_5, ex_store_5, Hours_saved)"
  by (simp add: click_hours_defs hours_defs ex_defs ex_hours_defs parseInt_5 Let_def)

text \<open>
  C1. The total the handler writes is not the sum over the student's registrations
  when the entry already held hours: the old hours are counted along with the new ones.
  A student with one registration (0 hours, total 0) logs \<open>-3\<close> and then \<open>5\<close>: the
  registration ends with 5 hours and the account with a total of 2.
\<close>

theorem logging_hours_twice_total_drifts:
  "clickSaveHours True True (Some ex_student)
     (changeHoursInput (clickLogHours ex_my_page ex_entry) ''-3'') ex_store_registered ex_entry
     = (ex_my_page_minus3, ex_store_minus3, Hours_saved)
   \<and> clickSaveHours True True (Some ex_student)
       (changeHoursInput (clickLogHours ex_my_page_minus3 ex_entry_minus3) ''5'') ex_store_minus3 ex_entry_minus3
     = (ex_my_page_5, ex_store_5, Hours_saved)
   \<and> map total_hours_logged (filter (\<lambda>p. profile_id p = ''s1'') (profiles ex_store_5)) = [2]
   \<and> hours_of_student ex_store_5 ''s1'' = 5"
proof -
  have "map total_hours_logged (filter (\<lambda>p. profile_id p = ''s1'') (profiles ex_store_5)) = [2]"
    by (simp add: ex_store_5_def ex_student_def ex_organization_def)
  moreover have "hours_of_student ex_store_5 ''s1'' = 5"
    by (simp add: hours_of_student_def ex_store_5_def ex_registration_def or_zero_def)
  ultimately show ?thesis
    using save_minus3 save_5 by simp
qed

lemma sum_hours_completed_sum_list:
  "sum_hours_completed items = sum_list (map (\<lambda>item. or_zero (ro_hours_completed item)) items)"
proof -
  have "foldl (\<lambda>sum item. sum + or_zero (ro_hours_completed item)) a items
          = a + sum_list (map (\<lambda>item. or_zero (ro_hours_completed item)) items)" for a
    by (induction items arbitrary: a) simp_all
  then show ?thesis by (simp add: sum_hours_completed_def)
qed

text \<open>What the handler writes as the total: the sum over the page's list before the update, plus the new hours.\<close>

lemma updateHoursCompleted_total_written:
  assumes "updateHoursCompleted ok1 True (Some p) pg st rid h = (pg', st', Hours_saved)"
    and "q \<in> set (profiles st')" and "profile_id q = profile_id p"
  shows "total_hours_logged q = sum_hours_completed (registeredOpportunities pg) + h"
  using assms
  by (auto simp: updateHoursCompleted_def update_registration_hours_def update_total_hours_logged_def
      Let_def split: if_splits)

text \<open>The new sum of the page's list: the old sum, minus the entry's old hours, plus the new ones.\<close>

lemma sum_after_update:
  assumes "distinct (map ro_id items)" and "e \<in> set items"
  shows "sum_list (map (\<lambda>item. or_zero (ro_hours_completed item))
           (map (\<lambda>item. if ro_id item = ro_id e
                        then item\<lparr>ro_hours_completed := Some h, ro_status := s\<rparr> else item) items))
         = sum_list (map (\<lambda>item. or_zero (ro_hours_completed item)) items)
             - or_zero (ro_hours_completed e) + h"
  using assms
proof (induction items)
  case Nil
  then show ?case by simp
next
  case (Cons x xs)
  show ?case
  proof (cases "x = e")
    case True
    with Cons.prems have "ro_id e \<notin> ro_id ` set xs" by simp
    then have "\<forall>y \<in> set xs. ro_id y \<noteq> ro_id e" by (metis imageI)
    then have "map (\<lambda>item. if ro_id item = ro_id e
                        then item\<lparr>ro_hours_completed := Some h, ro_status := s\<rparr> else item) xs = xs"
      by (induction xs) auto
    with True show ?thesis by (simp add: or_zero_def)
  next
    case False
    with Cons.prems have "e \<in> set xs" "distinct (map ro_id xs)" "ro_id x \<noteq> ro_id e"
      by auto
    with Cons.IH show ?thesis by simp
  qed
qed

lemma updateHoursCompleted_page_sum:
  assumes "updateHoursCompleted ok1 ok2 userProfile pg st (ro_id e) h = (pg', st', Hours_saved)"
    and "distinct (map ro_id (registeredOpportunities pg))" and "e \<in> set (registeredOpportunities pg)"
  shows "sum_hours_completed (registeredOpportunities pg')
           = sum_hours_completed (registeredOpportunities pg) + h - or_zero (ro_hours_completed e)"
  using sum_after_update [OF assms(2,3)]
  by (simp add: updateHoursCompleted_entries [OF assms(1)] sum_hours_completed_sum_list)

text \<open>
  So the total written is the sum over the page's new list exactly when the entry held
  no hours before the update.
\<close>

lemma updateHoursCompleted_total_when_fresh:
  assumes "updateHoursCompleted ok1 True (Some p) pg st (ro_id e) h = (pg', st', Hours_saved)"
    and "distinct (map ro_id (registeredOpportunities pg))" and "e \<in> set (registeredOpportunities pg)"
    and "q \<in> set (profiles st')" and "profile_id q = profile_id p"
  shows "total_hours_logged q
           = sum_hours_completed (registeredOpportunities pg') + or_zero (ro_hours_completed e)"
  using updateHoursCompleted_total_written [OF assms(1,4,5)]
    updateHoursCompleted_page_sum [OF assms(1,2,3)]
  by simp








subsection \<open>Registering\<close>

lemma ex_detail_page_eq:
  "ex_detail_page =
     \<lparr>opportunity = Some \<lparr>view_id = ''o1'', view_title = ''Food Drive'', view_organization_id = ''g1'',
                          view_hours_needed = 5, view_max_volunteers = 10, view_current_volunteers = 5\<rparr>,
      isRegistered = False\<rparr>"
  by (simp add: ex_detail_page_def fetchOpportunity_def checkUserStatus_def ex_defs)


lemma ex_detail_page_inactive_eq: "ex_detail_page_inactive = ex_detail_page"
  by (simp add: ex_detail_page_inactive_def ex_detail_page_eq ex_store_inactive_def
      fetchOpportunity_def checkUserStatus_def ex_defs)

lemma registerForOpportunity_unchanged:
  assumes "registerForOpportunity okInsert okUpdate new_id now user userProfile oid pg st = (pg', st', out)"
    and "out \<noteq> Registered"
  shows "st' = st \<and> pg' = pg"
  using assms
  by (auto simp: registerForOpportunity_def Let_def split: option.splits if_splits)

lemma registerForOpportunity_registered:
  assumes "registerForOpportunity okInsert okUpdate new_id now user userProfile oid pg st = (pg', st', Registered)"
  shows "\<exists>uid. user = Some uid \<and> map_option user_type userProfile = Some Student
           \<and> \<not> has_registration st uid oid
           \<and> st' = update_current_volunteers okUpdate oid
                    ((case opportunity pg of None \<Rightarrow> 0 | Some opp \<Rightarrow> view_current_volunteers opp) + 1)
                    (st\<lparr>volunteer_registrations :=
                          volunteer_registrations st @ [new_registration new_id uid oid now]\<rparr>)
           \<and> pg' = pg\<lparr>isRegistered := True,
                       opportunity := map_option (\<lambda>opp. opp\<lparr>view_current_volunteers := view_current_volunteers opp + 1\<rparr>)
                                                 (opportunity pg)\<rparr>"
  using assms
  by (auto simp: registerForOpportunity_def insert_registration_def has_registration_def
      new_registration_def Let_def split: option.splits if_splits)

lemma update_current_volunteers_rows [simp]:
  "volunteer_registrations (update_current_volunteers ok oid n st) = volunteer_registrations st"
  by (simp add: update_current_volunteers_def)

lemma stored_opportunity_updated:
  "stored_opportunity (update_current_volunteers True oid n st) oid
     = map_option (\<lambda>row. row\<lparr>current_volunteers := n\<rparr>) (stored_opportunity st oid)"
proof -
  have "find (\<lambda>row. opp_id row = oid)
          (map (\<lambda>row. if opp_id row = oid then row\<lparr>current_volunteers := n\<rparr> else row) rows)
        = map_option (\<lambda>row. row\<lparr>current_volunteers := n\<rparr>) (find (\<lambda>row. opp_id row = oid) rows)" for rows
    by (induction rows) auto
  then show ?thesis
    by (simp add: stored_opportunity_def update_current_volunteers_def)
qed

lemma stored_opportunity_rows [simp]:
  "stored_opportunity (st\<lparr>volunteer_registrations := rs\<rparr>) oid = stored_opportunity st oid"
  by (simp add: stored_opportunity_def)

text \<open>
  C2, as the code has it. When the handler does not end in \<open>Registered\<close>, the page and
  the store are as before. When it does, the registration is added to the student's
  rows; and if the store also accepted the second call and the page's copy of the count
  was the stored one, the stored count is the one before plus 1.
\<close>

theorem registerForOpportunity_effects:
  assumes "registerForOpportunity okInsert okUpdate new_id now user userProfile oid pg st = (pg', st', out)"
  shows "(out \<noteq> Registered \<longrightarrow> st' = st \<and> pg' = pg)
       \<and> (out = Registered \<longrightarrow>
            (\<exists>uid. user = Some uid
               \<and> volunteer_registrations st' = volunteer_registrations st @ [new_registration new_id uid oid now]))
       \<and> (out = Registered \<and> okUpdate \<and> opportunity pg = Some view \<and> stored_opportunity st oid = Some row
            \<and> view_current_volunteers view = current_volunteers row \<longrightarrow>
            map_option current_volunteers (stored_opportunity st' oid) = Some (current_volunteers row + 1))"
proof (cases "out = Registered")
  case False
  with registerForOpportunity_unchanged [OF assms] show ?thesis by simp
next
  case True
  with assms registerForOpportunity_registered obtain uid where
    u: "user = Some uid"
    and st': "st' = update_current_volunteers okUpdate oid
                    ((case opportunity pg of None \<Rightarrow> 0 | Some opp \<Rightarrow> view_current_volunteers opp) + 1)
                    (st\<lparr>volunteer_registrations :=
                          volunteer_registrations st @ [new_registration new_id uid oid now]\<rparr>)"
    by blast
  have a: "volunteer_registrations st' = volunteer_registrations st @ [new_registration new_id uid oid now]"
    by (simp add: st')
  have b: "map_option current_volunteers (stored_opportunity st' oid) = Some (current_volunteers row + 1)"
    if "okUpdate" "opportunity pg = Some view" "stored_opportunity st oid = Some row"
      "view_current_volunteers view = current_volunteers row"
    using that by (simp add: st' stored_opportunity_updated)
  from True u a b show ?thesis by blast
qed

theorem registerForOpportunity_effects_witness:
  "\<exists>pg' st'.
     registerForOpportunity True True ''r2'' ''t3'' (Some ''s1'') (Some ex_student) ''o1'' ex_detail_page ex_store
       = (pg', st', Registered)
     \<and> volunteer_registrations st' = [new_registration ''r2'' ''s1'' ''o1'' ''t3'']
     \<and> map_option current_volunteers (stored_opportunity ex_store ''o1'') = Some 5
     \<and> map_option current_volunteers (stored_opportunity st' ''o1'') = Some 6"
proof -
  obtain pg' st' where
    e: "registerForOpportunity True True ''r2'' ''t3'' (Some ''s1'') (Some ex_student) ''o1'' ex_detail_page ex_store
          = (pg', st', Registered)"
    by (simp add: register_defs ex_detail_page_eq ex_defs Let_def)
  have v: "opportunity ex_detail_page = Some \<lparr>view_id = ''o1'', view_title = ''Food Drive'',
      view_organization_id = ''g1'', view_hours_needed = 5, view_max_volunteers = 10,
      view_current_volunteers = 5\<rparr>"
    by (simp add: ex_detail_page_eq)
  have r: "stored_opportunity ex_store ''o1'' = Some ex_opportunity"
    by (simp add: stored_opportunity_def ex_defs)
  have c: "current_volunteers ex_opportunity = 5"
    by (simp add: ex_opportunity_def)
  note t = registerForOpportunity_effects [OF e, where view = "\<lparr>view_id = ''o1'', view_title = ''Food Drive'',
      view_organization_id = ''g1'', view_hours_needed = 5, view_max_volunteers = 10,
      view_current_volunteers = 5\<rparr>" and row = ex_opportunity]
  from t have "volunteer_registrations st' = volunteer_registrations ex_store @ [new_registration ''r2'' ''s1'' ''o1'' ''t3'']"
    by auto
  then have a: "volunteer_registrations st' = [new_registration ''r2'' ''s1'' ''o1'' ''t3'']"
    by (simp add: ex_store_def)
  from t v r c have b: "map_option current_volunteers (stored_opportunity st' ''o1'') = Some 6"
    by simp
  from e a b r c show ?thesis by simp
qed

text \<open>
  C2 as stated fails: the two writes are two calls. With the insert accepted and the
  update of the count refused, the handler ends in \<open>Registered\<close>, the registration is
  stored, and the stored count is still 5. And the count written is the page's copy
  plus one, not the stored count plus one: from the page loaded at 5 of 10, a
  registration against the store that meanwhile holds 10 of 10 leaves it at 6.
\<close>

theorem registerForOpportunity_not_one_unit:
  "snd (snd (registerForOpportunity True False ''r2'' ''t3'' (Some ''s1'') (Some ex_student) ''o1''
               ex_detail_page ex_store)) = Registered
   \<and> volunteer_registrations (fst (snd (registerForOpportunity True False ''r2'' ''t3'' (Some ''s1'')
               (Some ex_student) ''o1'' ex_detail_page ex_store)))
      = [new_registration ''r2'' ''s1'' ''o1'' ''t3'']
   \<and> volunteer_registrations ex_store = []
   \<and> map current_volunteers (opportunities ex_store) = [5]
   \<and> map current_volunteers (opportunities (fst (snd (registerForOpportunity True False ''r2'' ''t3''
               (Some ''s1'') (Some ex_student) ''o1'' ex_detail_page ex_store)))) = [5]
   \<and> snd (snd (registerForOpportunity True True ''r2'' ''t3'' (Some ''s1'') (Some ex_student) ''o1''
               ex_detail_page ex_store_full)) = Registered
   \<and> map current_volunteers (opportunities ex_store_full) = [10]
   \<and> map current_volunteers (opportunities (fst (snd (registerForOpportunity True True ''r2'' ''t3''
               (Some ''s1'') (Some ex_student) ''o1'' ex_detail_page ex_store_full)))) = [6]"
  by (simp add: register_defs ex_detail_page_eq ex_store_full_def ex_defs Let_def)

lemma clickRegister_cases:
  "clickRegister okInsert okUpdate new_id now user userProfile oid pg st =
     (if opportunity pg = None \<or> isRegistered pg then (pg, st, Register_no_button)
      else if view_current_volunteers (the (opportunity pg)) \<ge> view_max_volunteers (the (opportunity pg))
      then (pg, st, Register_button_disabled)
      else registerForOpportunity okInsert okUpdate new_id now user userProfile oid pg st)"
  by (simp add: clickRegister_def split: option.splits)

lemma clickRegister_registered:
  assumes "clickRegister okInsert okUpdate new_id now user userProfile oid pg st = (pg', st', Registered)"
  shows "registerForOpportunity okInsert okUpdate new_id now user userProfile oid pg st = (pg', st', Registered)
       \<and> \<not> isRegistered pg
       \<and> (\<exists>view. opportunity pg = Some view \<and> view_current_volunteers view < view_max_volunteers view)"
  using assms
  by (auto simp: clickRegister_def split: option.splits if_splits)






lemma has_registration_added:
  "has_registration
     (update_current_volunteers ok oid n
        (st\<lparr>volunteer_registrations := volunteer_registrations st @ [new_registration new_id uid oid now]\<rparr>))
     uid oid"
  by (simp add: has_registration_def new_registration_def list_ex_iff)

lemma registerForOpportunity_duplicate:
  assumes "user = Some uid" and "map_option user_type userProfile = Some Student"
    and "has_registration st uid oid"
  shows "registerForOpportunity okInsert okUpdate new_id now user userProfile oid pg st
           = (pg, st, Register_failed_alert)"
  using assms
  by (simp add: registerForOpportunity_def insert_registration_def has_registration_def)

text \<open>
  C4, as the code has it. A click on Register ends in \<open>Registered\<close> only for a student
  who has no registration for the opportunity yet, on a page that is not marked
  registered and whose copy of the opportunity has room; the status of the opportunity
  is not among the conditions. Afterwards the student has a registration, and any
  further call for the same student and opportunity is refused by the store's
  uniqueness constraint: the handler shows its failure alert and leaves page and store
  as they are.
\<close>

theorem clickRegister_conditions:
  "(clickRegister okInsert okUpdate new_id now user userProfile oid pg st = (pg', st', Registered) \<longrightarrow>
      map_option user_type userProfile = Some Student
      \<and> (\<exists>uid. user = Some uid \<and> \<not> has_registration st uid oid \<and> has_registration st' uid oid)
      \<and> \<not> isRegistered pg
      \<and> (\<exists>view. opportunity pg = Some view \<and> view_current_volunteers view < view_max_volunteers view))
   \<and> (user = Some uid \<and> map_option user_type userProfile = Some Student \<and> has_registration st uid oid \<longrightarrow>
        registerForOpportunity okInsert okUpdate new_id now user userProfile oid pg st
          = (pg, st, Register_failed_alert)
        \<and> snd (snd (clickRegister okInsert okUpdate new_id now user userProfile oid pg st)) \<noteq> Registered)"
proof -
  have a: "map_option user_type userProfile = Some Student
      \<and> (\<exists>uid. user = Some uid \<and> \<not> has_registration st uid oid \<and> has_registration st' uid oid)
      \<and> \<not> isRegistered pg
      \<and> (\<exists>view. opportunity pg = Some view \<and> view_current_volunteers view < view_max_volunteers view)"
    if c: "clickRegister okInsert okUpdate new_id now user userProfile oid pg st = (pg', st', Registered)"
  proof -
    note r = clickRegister_registered [OF c]
    from registerForOpportunity_registered [OF r [THEN conjunct1]] obtain u where
      "user = Some u" "map_option user_type userProfile = Some Student" "\<not> has_registration st u oid"
      "has_registration st' u oid"
      using has_registration_added by blast
    with r show ?thesis by blast
  qed
  have b: "registerForOpportunity okInsert okUpdate new_id now user userProfile oid pg st
          = (pg, st, Register_failed_alert)
        \<and> snd (snd (clickRegister okInsert okUpdate new_id now user userProfile oid pg st)) \<noteq> Registered"
    if "user = Some uid" "map_option user_type userProfile = Some Student" "has_registration st uid oid"
  proof -
    note d = registerForOpportunity_duplicate [OF that, of okInsert okUpdate new_id now pg]
    then show ?thesis by (simp add: clickRegister_cases)
  qed
  from a b show ?thesis by blast
qed

theorem clickRegister_conditions_witness:
  "\<exists>pg' st'.
     clickRegister True True ''r2'' ''t3'' (Some ''s1'') (Some ex_student) ''o1'' ex_detail_page ex_store
       = (pg', st', Registered)
     \<and> \<not> has_registration ex_store ''s1'' ''o1''
     \<and> has_registration st' ''s1'' ''o1''
     \<and> registerForOpportunity True True ''r3'' ''t4'' (Some ''s1'') (Some ex_student) ''o1'' ex_detail_page st'
         = (ex_detail_page, st', Register_failed_alert)"
proof -
  obtain pg' st' where
    e: "clickRegister True True ''r2'' ''t3'' (Some ''s1'') (Some ex_student) ''o1'' ex_detail_page ex_store
          = (pg', st', Registered)"
    by (simp add: register_defs ex_detail_page_eq ex_defs Let_def)
  have s: "map_option user_type (Some ex_student) = Some Student"
    by (simp add: ex_student_def)
  from clickRegister_conditions [of True True "''r2''" "''t3''" "Some ''s1''" "Some ex_student" "''o1''"
      ex_detail_page ex_store pg' st' "''s1''"] e
  have a: "\<not> has_registration ex_store ''s1'' ''o1''" and b: "has_registration st' ''s1'' ''o1''"
    by auto
  from clickRegister_conditions [of True True "''r3''" "''t4''" "Some ''s1''" "Some ex_student" "''o1''"
      ex_detail_page st' pg' st' "''s1''"] s b
  have c: "registerForOpportunity True True ''r3'' ''t4'' (Some ''s1'') (Some ex_student) ''o1'' ex_detail_page st'
         = (ex_detail_page, st', Register_failed_alert)"
    by blast
  from a b c show ?thesis by (simp add: e)
qed

text \<open>
  C4 as stated fails on the status: the page does not read it. A student registers for
  an opportunity whose stored status is \<open>inactive\<close>. And the room that is checked
  is the room of the page's copy: from the page loaded at 5 of 10, a student registers
  for the opportunity that the store meanwhile holds at 10 of 10.
\<close>

theorem clickRegister_ignores_status:
  "map status (opportunities ex_store_inactive) = [Opp_inactive]
   \<and> snd (snd (clickRegister True True ''r2'' ''t3'' (Some ''s1'') (Some ex_student) ''o1''
                 ex_detail_page_inactive ex_store_inactive)) = Registered
   \<and> has_registration (fst (snd (clickRegister True True ''r2'' ''t3'' (Some ''s1'') (Some ex_student) ''o1''
                 ex_detail_page_inactive ex_store_inactive))) ''s1'' ''o1''
   \<and> map (\<lambda>row. (current_volunteers row, max_volunteers row)) (opportunities ex_store_full) = [(10, 10)]
   \<and> snd (snd (clickRegister True True ''r2'' ''t3'' (Some ''s1'') (Some ex_student) ''o1''
                 ex_detail_page ex_store_full)) = Registered"
  by (simp add: register_defs has_registration_def ex_detail_page_inactive_eq
      ex_detail_page_eq ex_store_inactive_def ex_store_full_def ex_defs Let_def)

subsection \<open>The organization's dashboard\<close>

lemma handleSubmit_gate:
  "ForOrganizations_handleSubmit okWrite okFetch new_id now user userProfile pg st = (pg', st', out)
   \<Longrightarrow> out = Saved \<or> out = Save_failed_alert
   \<Longrightarrow> \<exists>uid p. user = Some uid \<and> userProfile = Some p \<and> user_type p = Organization \<and> verified p"
  by (auto simp: ForOrganizations_handleSubmit_def split: option.splits if_splits)

lemma handleSubmit_not_verified:
  "user = Some uid \<Longrightarrow> userProfile = Some p \<Longrightarrow> user_type p = Organization \<Longrightarrow> \<not> verified p
   \<Longrightarrow> ForOrganizations_handleSubmit okWrite okFetch new_id now user userProfile pg st
         = (pg, st, Not_verified_alert)"
  by (simp add: ForOrganizations_handleSubmit_def)

lemma handleSubmit_create_saved:
  assumes "ForOrganizations_handleSubmit okWrite okFetch new_id now user userProfile pg st = (pg', st', Saved)"
    and "editingOpportunity pg = None"
  shows "\<exists>uid row. user = Some uid \<and> opportunities st' = opportunities st @ [row]
           \<and> opp_id row = new_id \<and> organization_id row = uid
           \<and> status row = Opp_active \<and> current_volunteers row = 0
           \<and> title row = form_title (formData pg) \<and> max_volunteers row = form_max_volunteers (formData pg)"
  using assms
  by (auto simp: ForOrganizations_handleSubmit_def insert_opportunity_def write_opportunityData_def
      split: option.splits if_splits)

lemma handleSubmit_create_accepted:
  assumes "user = Some uid" and "userProfile = Some p" and "user_type p = Organization" and "verified p"
    and "editingOpportunity pg = None" and "okWrite" and "\<not> list_ex (\<lambda>row. opp_id row = new_id) (opportunities st)"
  shows "snd (snd (ForOrganizations_handleSubmit okWrite okFetch new_id now user userProfile pg st)) = Saved"
  using assms
  by (simp add: ForOrganizations_handleSubmit_def insert_opportunity_def)

lemma handleSubmit_verified_outcome:
  assumes "user = Some uid" and "user_type p = Organization" and "verified p"
  shows "snd (snd (ForOrganizations_handleSubmit okWrite okFetch new_id now user (Some p) pg st))
           = (if (case editingOpportunity pg of
                    Some editing \<Rightarrow> update_opportunity okWrite (opp_id editing) (formData pg) uid now st
                  | None \<Rightarrow> insert_opportunity okWrite new_id (formData pg) uid now st) = None
              then Save_failed_alert else Saved)"
  using assms
  by (auto simp: ForOrganizations_handleSubmit_def split: option.splits)

text \<open>
  C6. Submitting the form for a new opportunity stores it only for a user whose profile
  is an organization's with \<open>verified\<close> true, and the stored row carries that user's
  id as \<open>organization_id\<close>. For an organization that is not verified the handler shows
  the verification alert and calls nothing. The same submission with \<open>verified\<close> set
  passes the gate, and is stored as soon as the store accepts the insert.
\<close>

theorem create_opportunity_needs_verified:
  assumes "editingOpportunity pg = None"
  shows "(ForOrganizations_handleSubmit okWrite okFetch new_id now user userProfile pg st = (pg', st', Saved) \<longrightarrow>
            (\<exists>uid p row. user = Some uid \<and> userProfile = Some p \<and> user_type p = Organization \<and> verified p
               \<and> opportunities st' = opportunities st @ [row] \<and> organization_id row = uid))
       \<and> (user = Some uid \<and> userProfile = Some p \<and> user_type p = Organization \<and> \<not> verified p \<longrightarrow>
            ForOrganizations_handleSubmit okWrite okFetch new_id now user userProfile pg st
              = (pg, st, Not_verified_alert)
            \<and> snd (snd (ForOrganizations_handleSubmit okWrite okFetch new_id now user
                        (Some (p\<lparr>verified := True\<rparr>)) pg st)) \<noteq> Not_verified_alert
            \<and> (okWrite \<and> \<not> list_ex (\<lambda>row. opp_id row = new_id) (opportunities st) \<longrightarrow>
                 snd (snd (ForOrganizations_handleSubmit okWrite okFetch new_id now user
                             (Some (p\<lparr>verified := True\<rparr>)) pg st)) = Saved))"
proof -
  have a: "\<exists>uid p row. user = Some uid \<and> userProfile = Some p \<and> user_type p = Organization \<and> verified p
               \<and> opportunities st' = opportunities st @ [row] \<and> organization_id row = uid"
    if s: "ForOrganizations_handleSubmit okWrite okFetch new_id now user userProfile pg st = (pg', st', Saved)"
    using handleSubmit_gate [OF s] handleSubmit_create_saved [OF s assms] by auto
  have b: "ForOrganizations_handleSubmit okWrite okFetch new_id now user userProfile pg st
              = (pg, st, Not_verified_alert)"
    if "user = Some uid" "userProfile = Some p" "user_type p = Organization" "\<not> verified p"
    using that by (rule handleSubmit_not_verified)
  have c: "snd (snd (ForOrganizations_handleSubmit okWrite okFetch new_id now user
                             (Some (p\<lparr>verified := True\<rparr>)) pg st)) = Saved"
    if "user = Some uid" "user_type p = Organization" "okWrite"
      "\<not> list_ex (\<lambda>row. opp_id row = new_id) (opportunities st)"
    using that assms
    by (intro handleSubmit_create_accepted [where uid = uid and p = "p\<lparr>verified := True\<rparr>"]) simp_all
  have d: "snd (snd (ForOrganizations_handleSubmit okWrite okFetch new_id now user
                        (Some (p\<lparr>verified := True\<rparr>)) pg st)) \<noteq> Not_verified_alert"
    if "user = Some uid" "user_type p = Organization"
    using that by (simp add: handleSubmit_verified_outcome)
  from a b c d show ?thesis by blast
qed

theorem create_opportunity_needs_verified_witness:
  "ForOrganizations_handleSubmit True True ''o2'' ''t2'' (Some ''g1'') (Some ex_organization) ex_dashboard_new ex_store
     = (ex_dashboard_new, ex_store, Not_verified_alert)
   \<and> (\<exists>pg' st' row.
        ForOrganizations_handleSubmit True True ''o2'' ''t2'' (Some ''g1'') (Some (ex_organization\<lparr>verified := True\<rparr>))
          ex_dashboard_new ex_store = (pg', st', Saved)
        \<and> opportunities st' = opportunities ex_store @ [row] \<and> organization_id row = ''g1'')"
proof -
  have n: "editingOpportunity ex_dashboard_new = None"
    by (simp add: ex_dashboard_new_def ex_dashboard_def dashboard_defs)
  have o: "user_type ex_organization = Organization" "\<not> verified ex_organization"
    by (simp_all add: ex_organization_def)
  have f: "\<not> list_ex (\<lambda>row. opp_id row = ''o2'') (opportunities ex_store)"
    by (simp add: ex_defs)
  note t = create_opportunity_needs_verified [OF n, of True True "''o2''" "''t2''" "Some ''g1''" _ ex_store]
  from t [of "Some ex_organization" _ _ "''g1''" ex_organization] o f
  have a: "ForOrganizations_handleSubmit True True ''o2'' ''t2'' (Some ''g1'') (Some ex_organization) ex_dashboard_new ex_store
     = (ex_dashboard_new, ex_store, Not_verified_alert)"
    and b: "snd (snd (ForOrganizations_handleSubmit True True ''o2'' ''t2'' (Some ''g1'')
                (Some (ex_organization\<lparr>verified := True\<rparr>)) ex_dashboard_new ex_store)) = Saved"
    by simp_all
  from b obtain pg' st' where
    e: "ForOrganizations_handleSubmit True True ''o2'' ''t2'' (Some ''g1'') (Some (ex_organization\<lparr>verified := True\<rparr>))
          ex_dashboard_new ex_store = (pg', st', Saved)"
    by (metis prod.collapse)
  from t [of "Some (ex_organization\<lparr>verified := True\<rparr>)" pg' st'] e
  obtain row where "opportunities st' = opportunities ex_store @ [row]" "organization_id row = ''g1''"
    by auto
  with a e show ?thesis by simp
qed

lemma handleSubmit_edit_saved:
  assumes "ForOrganizations_handleSubmit okWrite okFetch new_id now user userProfile pg st = (pg', st', Saved)"
    and "editingOpportunity pg = Some editing"
  shows "\<exists>uid. user = Some uid
           \<and> opportunities st' =
               map (\<lambda>row. if opp_id row = opp_id editing
                          then write_opportunityData (formData pg) uid now row else row)
                   (opportunities st)"
  using assms
  by (auto simp: ForOrganizations_handleSubmit_def update_opportunity_def
      split: option.splits if_splits)

lemma handleSubmit_edit_accepted:
  assumes "user = Some uid" and "user_type p = Organization" and "verified p"
    and "editingOpportunity pg = Some editing"
  shows "\<exists>pg' st'. ForOrganizations_handleSubmit True okFetch new_id now user (Some p) pg st
           = (pg', st', Saved)"
  using assms
  by (simp add: ForOrganizations_handleSubmit_def update_opportunity_def)

lemma clickDelete_listed:
  assumes "dashboard_shown user userProfile" and "opp \<in> set (opportunities_state pg)"
  shows "clickDelete confirmed okDelete okFetch user userProfile pg st opp
           = handleDelete confirmed okDelete okFetch user pg st (opp_id opp)"
  using assms by (simp add: clickDelete_def)

lemma handleDelete_deleted:
  "snd (handleDelete True True okFetch user pg st oid)
     = (st\<lparr>opportunities := filter (\<lambda>row. opp_id row \<noteq> oid) (opportunities st)\<rparr>, Deleted)"
  by (simp add: handleDelete_def delete_opportunity_def)

text \<open>The dashboard lists the rows that carry the user's id as \<open>organization_id\<close>.\<close>

lemma fetched_opportunities_owned:
  "opp \<in> set (opportunities_state (fetchOrganizationOpportunities True (Some uid) pg st))
   \<Longrightarrow> organization_id opp = uid \<and> opp \<in> set (opportunities st)"
  by (simp add: fetchOrganizationOpportunities_def)

text \<open>
  C7, as the code has it. Delete asks for no more than the dashboard does: a user whose
  profile is an organization's, and an opportunity in the dashboard's list; whatever
  \<open>verified\<close> is, a confirmed Delete that the store accepts removes the row. Update goes
  through the form's handler, whose gates come before it looks at what is being edited:
  an edit is stored only for a verified organization, and for one that is not verified
  the handler shows the verification alert and leaves the store as it is.
\<close>

theorem delete_ignores_verified_update_does_not:
  "(dashboard_shown user userProfile \<and> opp \<in> set (opportunities_state pg) \<longrightarrow>
      snd (clickDelete True True okFetch user userProfile pg st opp)
        = (st\<lparr>opportunities := filter (\<lambda>row. opp_id row \<noteq> opp_id opp) (opportunities st)\<rparr>, Deleted))
   \<and> (editingOpportunity pg = Some editing
        \<and> ForOrganizations_handleSubmit okWrite okFetch new_id now user userProfile pg st = (pg', st', Saved) \<longrightarrow>
        (\<exists>uid p. user = Some uid \<and> userProfile = Some p \<and> user_type p = Organization \<and> verified p
           \<and> opportunities st' =
               map (\<lambda>row. if opp_id row = opp_id editing
                          then write_opportunityData (formData pg) uid now row else row)
                   (opportunities st)))
   \<and> (editingOpportunity pg = Some editing
        \<and> user = Some uid \<and> userProfile = Some p \<and> user_type p = Organization \<and> \<not> verified p \<longrightarrow>
        ForOrganizations_handleSubmit okWrite okFetch new_id now user userProfile pg st
          = (pg, st, Not_verified_alert))"
proof -
  have a: "snd (clickDelete True True okFetch user userProfile pg st opp)
        = (st\<lparr>opportunities := filter (\<lambda>row. opp_id row \<noteq> opp_id opp) (opportunities st)\<rparr>, Deleted)"
    if "dashboard_shown user userProfile" "opp \<in> set (opportunities_state pg)"
    by (simp add: clickDelete_listed [OF that] handleDelete_deleted)
  have b: "\<exists>uid p. user = Some uid \<and> userProfile = Some p \<and> user_type p = Organization \<and> verified p
           \<and> opportunities st' =
               map (\<lambda>row. if opp_id row = opp_id editing
                          then write_opportunityData (formData pg) uid now row else row)
                   (opportunities st)"
    if e: "editingOpportunity pg = Some editing"
      and s: "ForOrganizations_handleSubmit okWrite okFetch new_id now user userProfile pg st = (pg', st', Saved)"
    using handleSubmit_gate [OF s] handleSubmit_edit_saved [OF s e] by auto
  have c: "ForOrganizations_handleSubmit okWrite okFetch new_id now user userProfile pg st
          = (pg, st, Not_verified_alert)"
    if "user = Some uid" "userProfile = Some p" "user_type p = Organization" "\<not> verified p"
    using that by (rule handleSubmit_not_verified)
  from a b c show ?thesis by blast
qed

theorem delete_ignores_verified_update_does_not_witness:
  "\<not> verified ex_organization
   \<and> snd (clickDelete True True True (Some ''g1'') (Some ex_organization) ex_dashboard ex_store ex_opportunity)
       = (ex_store\<lparr>opportunities := []\<rparr>, Deleted)
   \<and> ForOrganizations_handleSubmit True True ''o2'' ''t2'' (Some ''g1'') (Some ex_organization)
        ex_dashboard_unverified_editing ex_store
       = (ex_dashboard_unverified_editing, ex_store, Not_verified_alert)
   \<and> (\<exists>pg' st'. ForOrganizations_handleSubmit True True ''o2'' ''t2'' (Some ''g1'') (Some ex_verified_organization)
        ex_dashboard_editing ex_store = (pg', st', Saved)
        \<and> map max_volunteers (opportunities st') = [3])"
proof -
  have d: "dashboard_shown (Some ''g1'') (Some ex_organization)"
    by (simp add: dashboard_shown_def ex_organization_def)
  have l: "ex_opportunity \<in> set (opportunities_state ex_dashboard)"
    by (simp add: ex_dashboard_def fetchOrganizationOpportunities_def ex_defs)
  have u: "user_type ex_organization = Organization" "\<not> verified ex_organization"
    by (simp_all add: ex_organization_def)
  have e1: "editingOpportunity ex_dashboard_unverified_editing = Some ex_opportunity"
    using d l by (simp add: ex_dashboard_unverified_editing_def clickEdit_def handleEdit_def)
  have e2: "editingOpportunity ex_dashboard_editing = Some ex_opportunity"
    using l
    by (simp add: ex_dashboard_editing_def clickEdit_def handleEdit_def dashboard_shown_def
        ex_verified_organization_def ex_organization_def Let_def)
  have f: "filter (\<lambda>row. opp_id row \<noteq> opp_id ex_opportunity) (opportunities ex_store) = []"
    by (simp add: ex_defs)
  obtain pg' st' where
    s: "ForOrganizations_handleSubmit True True ''o2'' ''t2'' (Some ''g1'') (Some ex_verified_organization)
        ex_dashboard_editing ex_store = (pg', st', Saved)"
    using handleSubmit_edit_accepted [of "Some ''g1''" "''g1''" ex_verified_organization
        ex_dashboard_editing ex_opportunity True "''o2''" "''t2''" ex_store] e2
    by (auto simp: ex_verified_organization_def ex_organization_def)
  note t1 = delete_ignores_verified_update_does_not
    [where user = "Some ''g1''" and userProfile = "Some ex_organization" and opp = ex_opportunity
      and pg = ex_dashboard and okFetch = True and st = ex_store]
  note t2 = delete_ignores_verified_update_does_not
    [where user = "Some ''g1''" and userProfile = "Some ex_organization"
      and pg = ex_dashboard_unverified_editing and st = ex_store and editing = ex_opportunity
      and okWrite = True and okFetch = True and new_id = "''o2''" and now = "''t2''"
      and uid = "''g1''" and p = ex_organization]
  note t3 = delete_ignores_verified_update_does_not
    [where user = "Some ''g1''" and userProfile = "Some ex_verified_organization"
      and pg = ex_dashboard_editing and st = ex_store and editing = ex_opportunity
      and okWrite = True and okFetch = True and new_id = "''o2''" and now = "''t2''"
      and pg' = pg' and st' = st']
  from t1 [THEN conjunct1] d l f have a: "snd (clickDelete True True True (Some ''g1'') (Some ex_organization) ex_dashboard ex_store ex_opportunity)
       = (ex_store\<lparr>opportunities := []\<rparr>, Deleted)"
    by simp
  from t2 [THEN conjunct2, THEN conjunct2] e1 u have b: "ForOrganizations_handleSubmit True True ''o2'' ''t2'' (Some ''g1'') (Some ex_organization)
        ex_dashboard_unverified_editing ex_store
       = (ex_dashboard_unverified_editing, ex_store, Not_verified_alert)"
    by simp
  from t3 [THEN conjunct2, THEN conjunct1] e2 s have "opportunities st' =
               map (\<lambda>row. if opp_id row = opp_id ex_opportunity
                          then write_opportunityData (formData ex_dashboard_editing) ''g1'' ''t2'' row else row)
                   (opportunities ex_store)"
    by auto
  then have c: "map max_volunteers (opportunities st') = [3]"
    using l
    by (simp add: ex_dashboard_editing_def clickEdit_def handleEdit_def dashboard_shown_def
        ex_verified_organization_def write_opportunityData_def ex_defs Let_def)
  from u a b c show ?thesis by (simp add: s)
qed

text \<open>
  C7 as stated fails for Update. An organization that is not verified opens the
  opportunity it owns for editing and submits the form: the handler answers with the
  verification alert and the store is unchanged.
\<close>

theorem unverified_organization_cannot_update:
  "verified ex_organization = False
   \<and> organization_id ex_opportunity = profile_id ex_organization
   \<and> editingOpportunity ex_dashboard_unverified_editing = Some ex_opportunity
   \<and> submitForm True True ''o2'' ''t2'' (Some ''g1'') (Some ex_organization)
        ex_dashboard_unverified_editing ex_store
       = (ex_dashboard_unverified_editing, ex_store, Not_verified_alert)"
  by (simp add: ex_dashboard_unverified_editing_def ex_dashboard_def dashboard_defs ex_defs)

text \<open>
  C10. A submitted edit that the store accepts overwrites the row with the form's data,
  \<open>current_volunteers = 0\<close> and \<open>status = active\<close>, whatever the row held; no
  row is added or removed.
\<close>

theorem edit_resets_volunteers_and_status:
  assumes "ForOrganizations_handleSubmit okWrite okFetch new_id now user userProfile pg st = (pg', st', Saved)"
    and "editingOpportunity pg = Some editing"
  shows "map opp_id (opportunities st') = map opp_id (opportunities st)
       \<and> (\<forall>row \<in> set (opportunities st'). opp_id row = opp_id editing \<longrightarrow>
             current_volunteers row = 0 \<and> status row = Opp_active)"
proof -
  from handleSubmit_edit_saved [OF assms] obtain uid where
    st': "opportunities st' =
               map (\<lambda>row. if opp_id row = opp_id editing
                          then write_opportunityData (formData pg) uid now row else row)
                   (opportunities st)"
    by blast
  have a: "map opp_id (opportunities st') = map opp_id (opportunities st)"
    unfolding st' by (induction "opportunities st") (auto simp: write_opportunityData_def)
  have b: "current_volunteers row = 0 \<and> status row = Opp_active"
    if "row \<in> set (opportunities st')" "opp_id row = opp_id editing" for row
  proof -
    from that(1) have "row \<in> (\<lambda>r0. if opp_id r0 = opp_id editing
                                then write_opportunityData (formData pg) uid now r0 else r0)
                         ` set (opportunities st)"
      unfolding st' by simp
    then obtain r0 where
      r: "row = (if opp_id r0 = opp_id editing then write_opportunityData (formData pg) uid now r0 else r0)"
      by blast
    from r that(2) have "row = write_opportunityData (formData pg) uid now r0"
      by (cases "opp_id r0 = opp_id editing") simp_all
    then show ?thesis by (simp add: write_opportunityData_def)
  qed
  from a b show ?thesis by blast
qed

theorem edit_resets_volunteers_and_status_witness:
  "map (\<lambda>row. (current_volunteers row, status row)) (opportunities ex_store_inactive) = [(5, Opp_inactive)]
   \<and> (\<exists>pg' st'.
        ForOrganizations_handleSubmit True True ''o2'' ''t2'' (Some ''g1'') (Some ex_verified_organization)
          ex_dashboard_inactive_editing ex_store_inactive = (pg', st', Saved)
        \<and> map (\<lambda>row. (current_volunteers row, status row)) (opportunities st') = [(0, Opp_active)])"
proof -
  have e: "editingOpportunity ex_dashboard_inactive_editing = Some (ex_opportunity\<lparr>status := Opp_inactive\<rparr>)"
    by (simp add: ex_dashboard_inactive_editing_def ex_store_inactive_def ex_verified_organization_def
        dashboard_defs ex_defs Let_def)
  obtain pg' st' where
    s: "ForOrganizations_handleSubmit True True ''o2'' ''t2'' (Some ''g1'') (Some ex_verified_organization)
          ex_dashboard_inactive_editing ex_store_inactive = (pg', st', Saved)"
    using handleSubmit_edit_accepted [of "Some ''g1''" "''g1''" ex_verified_organization
        ex_dashboard_inactive_editing "ex_opportunity\<lparr>status := Opp_inactive\<rparr>" True "''o2''" "''t2''"
        ex_store_inactive] e
    by (auto simp: ex_verified_organization_def ex_organization_def)
  note t = edit_resets_volunteers_and_status [OF s e]
  from t have "map opp_id (opportunities st') = [''o1'']"
    by (simp add: ex_store_inactive_def ex_defs)
  then obtain row where r: "opportunities st' = [row]" "opp_id row = ''o1''"
    by (auto simp: map_eq_Cons_conv)
  with t have "current_volunteers row = 0 \<and> status row = Opp_active"
    by (simp add: ex_opportunity_def)
  with r have a: "map (\<lambda>row. (current_volunteers row, status row)) (opportunities st') = [(0, Opp_active)]"
    by simp
  have b: "map (\<lambda>row. (current_volunteers row, status row)) (opportunities ex_store_inactive) = [(5, Opp_inactive)]"
    by (simp add: ex_store_inactive_def ex_defs)
  from a b show ?thesis by (simp add: s)
qed

subsection \<open>The fields an account writes\<close>

lemma profile_updates_keys:
  "map fst (profile_updates userProfile fd)
     = (case map_option user_type userProfile of
          Some Student \<Rightarrow> [''full_name'', ''service_hours_goal'']
        | Some Organization \<Rightarrow>
            [''full_name'', ''organization_name'', ''address'', ''city'', ''state'', ''zip_code'', ''phone'']
        | None \<Rightarrow> [])"
  by (simp add: profile_updates_def split: option.splits user_type.splits)

lemma profile_updates_no_verified: "''verified'' \<notin> fst ` set (profile_updates userProfile fd)"
proof -
  have "''verified'' \<notin> set (map fst (profile_updates userProfile fd))"
    unfolding profile_updates_keys by (simp split: option.splits user_type.splits)
  then show ?thesis by simp
qed

text \<open>A write that does not name \<open>verified\<close> leaves it, and the row's id and type, as they are.\<close>

lemma set_profile_column_keeps:
  assumes "set_profile_column column v row = Some row'" and "column \<noteq> ''verified''"
  shows "verified row' = verified row \<and> user_type row' = user_type row \<and> profile_id row' = profile_id row"
  using assms
  by (auto simp: set_profile_column_def split: if_splits field_value.splits option.splits)

lemma set_profile_columns_keeps:
  assumes "set_profile_columns updates row = Some row'" and "''verified'' \<notin> fst ` set updates"
  shows "verified row' = verified row \<and> user_type row' = user_type row \<and> profile_id row' = profile_id row"
  using assms
proof (induction updates arbitrary: row)
  case Nil
  then show ?case by simp
next
  case (Cons u updates)
  obtain column v where u: "u = (column, v)" by (cases u)
  from Cons.prems(1) u obtain mid where
    m: "set_profile_column column v row = Some mid" and r: "set_profile_columns updates mid = Some row'"
    by (auto split: option.splits)
  from Cons.prems(2) u have "column \<noteq> ''verified''" "''verified'' \<notin> fst ` set updates"
    by auto
  with set_profile_column_keeps [OF m] Cons.IH [OF r] show ?case by simp
qed

lemma update_profile_rows_keeps:
  assumes "update_profile_rows uid updates rows = Some rows'" and "''verified'' \<notin> fst ` set updates"
  shows "map (\<lambda>p. (profile_id p, user_type p, verified p)) rows'
           = map (\<lambda>p. (profile_id p, user_type p, verified p)) rows"
  using assms
proof (induction rows arbitrary: rows')
  case Nil
  then show ?case by simp
next
  case (Cons row rows)
  from Cons.prems(1) obtain row' rest where
    h: "(if profile_id row = uid then set_profile_columns updates row else Some row) = Some row'"
    and t: "update_profile_rows uid updates rows = Some rest" and e: "rows' = row' # rest"
    by (auto split: option.splits)
  have "verified row' = verified row \<and> user_type row' = user_type row \<and> profile_id row' = profile_id row"
  proof (cases "profile_id row = uid")
    case True
    with h have "set_profile_columns updates row = Some row'" by simp
    then show ?thesis using Cons.prems(2) by (rule set_profile_columns_keeps)
  next
    case False
    with h show ?thesis by simp
  qed
  with Cons.IH [OF t Cons.prems(2)] e show ?case by simp
qed

lemma Profile_handleSubmit_keeps:
  assumes "Profile_handleSubmit ok user userProfile fd st = (st', out)"
  shows "map (\<lambda>p. (profile_id p, user_type p, verified p)) (profiles st')
           = map (\<lambda>p. (profile_id p, user_type p, verified p)) (profiles st)"
proof (cases "updateProfile ok user (profile_updates userProfile fd) st")
  case None
  with assms show ?thesis by (simp add: Profile_handleSubmit_def)
next
  case (Some s)
  with assms have s: "st' = s" by (simp add: Profile_handleSubmit_def)
  from Some obtain uid rows where
    "update_profile_rows uid (profile_updates userProfile fd) (profiles st) = Some rows"
    and "s = st\<lparr>profiles := rows\<rparr>"
    by (auto simp: updateProfile_def split: option.splits if_splits)
  with update_profile_rows_keeps profile_updates_no_verified s show ?thesis
    by fastforce
qed

text \<open>
  C9. The fields the profile form writes never include \<open>verified\<close>, whatever the form
  holds and whoever the user is. So after a submission, accepted or not, every profile
  has the \<open>verified\<close> (and the id and the type) it had; in particular, if no student
  was verified before, none is after.
\<close>

theorem profile_update_never_writes_verified:
  "''verified'' \<notin> fst ` set (profile_updates userProfile fd)
   \<and> (Profile_handleSubmit ok user userProfile fd st = (st', out) \<longrightarrow>
        map (\<lambda>p. (profile_id p, verified p)) (profiles st')
          = map (\<lambda>p. (profile_id p, verified p)) (profiles st)
        \<and> (list_all (\<lambda>p. user_type p = Student \<longrightarrow> \<not> verified p) (profiles st) \<longrightarrow>
             list_all (\<lambda>p. user_type p = Student \<longrightarrow> \<not> verified p) (profiles st')))"
proof -
  have a: "map (\<lambda>p. (profile_id p, verified p)) (profiles st')
          = map (\<lambda>p. (profile_id p, verified p)) (profiles st)
        \<and> (list_all (\<lambda>p. user_type p = Student \<longrightarrow> \<not> verified p) (profiles st) \<longrightarrow>
             list_all (\<lambda>p. user_type p = Student \<longrightarrow> \<not> verified p) (profiles st'))"
    if h: "Profile_handleSubmit ok user userProfile fd st = (st', out)"
  proof -
    note k = Profile_handleSubmit_keeps [OF h]
    have "map (\<lambda>p. (profile_id p, verified p)) (profiles st')
            = map ((\<lambda>(i, t, v). (i, v)) \<circ> (\<lambda>p. (profile_id p, user_type p, verified p))) (profiles st')"
      by (simp add: comp_def)
    also have "\<dots> = map (\<lambda>(i, t, v). (i, v)) (map (\<lambda>p. (profile_id p, user_type p, verified p)) (profiles st))"
      by (simp add: k [symmetric])
    finally have 1: "map (\<lambda>p. (profile_id p, verified p)) (profiles st')
          = map (\<lambda>p. (profile_id p, verified p)) (profiles st)"
      by (simp add: comp_def)
    have l: "list_all (\<lambda>p. user_type p = Student \<longrightarrow> \<not> verified p) ps
            = list_all (\<lambda>(i, t, v). t = Student \<longrightarrow> \<not> v) (map (\<lambda>p. (profile_id p, user_type p, verified p)) ps)" for ps
      by (induction ps) simp_all
    have 2: "list_all (\<lambda>p. user_type p = Student \<longrightarrow> \<not> verified p) (profiles st')
            = list_all (\<lambda>p. user_type p = Student \<longrightarrow> \<not> verified p) (profiles st)"
      unfolding l [of "profiles st'"] l [of "profiles st"] k ..
    from 1 2 show ?thesis by simp
  qed
  from profile_updates_no_verified a show ?thesis by blast
qed

theorem profile_update_never_writes_verified_witness:
  "\<exists>st'. Profile_handleSubmit True (Some ''s1'') (Some ex_student) ex_profile_form ex_store
            = (st', Profile_updated)
     \<and> map full_name (profiles st') = [''Sam S'', ''Olga'']
     \<and> map service_hours_goal (profiles st') = [Some 120, Some 100]
     \<and> map (\<lambda>p. (profile_id p, verified p)) (profiles st') = [(''s1'', False), (''g1'', False)]
     \<and> list_all (\<lambda>p. \<not> (user_type p = Student \<and> verified p)) (profiles st')"
proof -
  have g: "parseInt ''120'' = Num 120"
    by (simp add: parse_defs)
  obtain st' where
    e: "Profile_handleSubmit True (Some ''s1'') (Some ex_student) ex_profile_form ex_store
            = (st', Profile_updated)"
    and n: "map full_name (profiles st') = [''Sam S'', ''Olga'']"
    and v: "map service_hours_goal (profiles st') = [Some 120, Some 100]"
    by (simp add: profile_defs ex_profile_form_def ex_defs g json_number_def)
  have b: "list_all (\<lambda>p. user_type p = Student \<longrightarrow> \<not> verified p) (profiles ex_store)"
    by (simp add: ex_defs)
  note t = profile_update_never_writes_verified
    [where userProfile = "Some ex_student" and fd = ex_profile_form and ok = True
      and user = "Some ''s1''" and st = ex_store and st' = st' and out = Profile_updated,
      THEN conjunct2, rule_format, OF e]
  from t [THEN conjunct1]
  have 1: "map (\<lambda>p. (profile_id p, verified p)) (profiles st') = [(''s1'', False), (''g1'', False)]"
    by (simp add: ex_defs)
  from t [THEN conjunct2] b
  have "list_all (\<lambda>p. user_type p = Student \<longrightarrow> \<not> verified p) (profiles st')"
    by simp
  then have 2: "list_all (\<lambda>p. \<not> (user_type p = Student \<and> verified p)) (profiles st')"
    by (simp add: list_all_iff)
  from n v 1 2 show ?thesis by (simp add: e)
qed

text \<open>An organization's account starts with \<open>verified\<close> false: the sign-up form says so.\<close>

lemma OrganizationRegister_starts_unverified:
  "OrganizationRegister_userData fd = Inr userData \<Longrightarrow> map_of userData ''verified'' = Some (Flag False)"
  by (auto simp: OrganizationRegister_userData_def split: if_splits)

lemma OrganizationRegister_example:
  "map_option (\<lambda>userData. map_of userData ''verified'')
     (case OrganizationRegister_userData ex_register_form of Inl e \<Rightarrow> None | Inr userData \<Rightarrow> Some userData)
   = Some (Some (Flag False))"
  by (simp add: OrganizationRegister_userData_def ex_register_form_def)

text \<open>The store itself would take a write of \<open>verified\<close>: it is the form that never sends one.\<close>

lemma store_accepts_verified:
  "map_option (\<lambda>st'. map verified (profiles st'))
     (updateProfile True (Some ''g1'') [(''verified'', Flag True)] ex_store) = Some [False, True]"
  by (simp add: updateProfile_def set_profile_column_def ex_defs)

end
